theory Spec2Isabelle
  imports Complex_Main
begin

section \<open>Strings and paths\<close>

text \<open>
  Python strings are modelled as \<open>string\<close>. A \<open>pathlib.Path\<close> is modelled by its
  normalised string form (what \<open>str(path)\<close> prints on a POSIX system): components
  separated by single slashes, no trailing slash, the current directory written \<open>.\<close>.
  The functions below follow \<open>pathlib.PurePath\<close>.
\<close>

type_synonym path = string

text \<open>\<open>s.lower()\<close>, on ASCII letters; every other character is left as it is.\<close>

definition lower_char :: "char \<Rightarrow> char" where
  "lower_char c =
     (case map_of (zip ''ABCDEFGHIJKLMNOPQRSTUVWXYZ'' ''abcdefghijklmnopqrstuvwxyz'') c of
        Some l \<Rightarrow> l
      | None \<Rightarrow> c)"

definition lower :: "string \<Rightarrow> string" where
  "lower s = map lower_char s"

text \<open>\<open>s.rfind(c)\<close>: the highest index of \<open>c\<close> in \<open>s\<close>, or \<open>-1\<close>.\<close>

definition rfind :: "string \<Rightarrow> char \<Rightarrow> int" where
  "rfind s c =
     (if c \<in> set s
      then int (length s) - 1 - int (length (takeWhile (\<lambda>x. x \<noteq> c) (rev s)))
      else - 1)"

text \<open>\<open>path.name\<close>: the final component; empty for the root and for \<open>.\<close>.\<close>

definition path_name :: "path \<Rightarrow> string" where
  "path_name p =
     (if p = ''.'' then [] else rev (takeWhile (\<lambda>c. c \<noteq> CHR ''/'') (rev p)))"

text \<open>\<open>path.suffix\<close>: from the last dot of the name, unless that dot is the first or
  the last character of the name.\<close>

definition path_suffix :: "path \<Rightarrow> string" where
  "path_suffix p =
     (let name = path_name p; i = rfind name (CHR ''.'')
      in if 0 < i \<and> i < int (length name) - 1 then drop (nat i) name else [])"

text \<open>\<open>path.parent\<close>.\<close>

definition path_parent :: "path \<Rightarrow> path" where
  "path_parent p =
     (let d = dropWhile (\<lambda>c. c \<noteq> CHR ''/'') (rev p)
      in if d = [] then ''.'' else if tl d = [] then ''/'' else rev (tl d))"

section \<open>Exceptions\<close>

text \<open>
  The exceptions the package raises or lets through. \<open>RuntimeError msg cause\<close> carries
  the \<open>__cause__\<close> set by \<open>raise ... from e\<close>. \<open>OtherException\<close> stands for any
  other subclass of \<open>Exception\<close> raised by a collaborator (PyMuPDF, pdf2docx, the
  operating system). \<open>KeyboardInterrupt\<close> is the one exception modelled that is not a
  subclass of \<open>Exception\<close>, so no \<open>except Exception\<close> clause catches it.
\<close>

datatype exn =
    ValueError string
  | RuntimeError string "exn option"
  | OtherException string
  | KeyboardInterrupt

fun is_Exception :: "exn \<Rightarrow> bool" where
  "is_Exception KeyboardInterrupt = False"
| "is_Exception _ = True"

text \<open>\<open>str(e)\<close>.\<close>

fun exn_str :: "exn \<Rightarrow> string" where
  "exn_str (ValueError m) = m"
| "exn_str (RuntimeError m _) = m"
| "exn_str (OtherException m) = m"
| "exn_str KeyboardInterrupt = []"

text \<open>\<open>path.with_suffix(suffix)\<close>, with the \<open>ValueError\<close>s of pathlib as results.\<close>

definition with_suffix :: "path \<Rightarrow> string \<Rightarrow> exn + path" where
  "with_suffix p suffix =
     (if CHR ''/'' \<in> set suffix then Inl (ValueError ''Invalid suffix'')
      else if (suffix \<noteq> [] \<and> hd suffix \<noteq> CHR ''.'') \<or> suffix = ''.''
      then Inl (ValueError ''Invalid suffix'')
      else let name = path_name p in
        if name = [] then Inl (ValueError ''path has an empty name'')
        else let old_suffix = path_suffix p;
                 name' = (if old_suffix = [] then name @ suffix
                          else take (length name - length old_suffix) name @ suffix)
             in Inr (take (length p - length name) p @ name'))"

text \<open>\<open>str(n)\<close> for a non-negative integer: its decimal digits.\<close>

definition digit_char :: "nat \<Rightarrow> char" where
  "digit_char d = ''0123456789'' ! d"

fun str_nat :: "nat \<Rightarrow> string" where
  "str_nat n = (if n < 10 then [digit_char n] else str_nat (n div 10) @ [digit_char (n mod 10)])"

declare str_nat.simps [simp del]

text \<open>\<open>sep.join(xs)\<close>.\<close>

fun join :: "string \<Rightarrow> string list \<Rightarrow> string" where
  "join sep [] = []"
| "join sep [x] = x"
| "join sep (x # y # ys) = x @ sep @ join sep (y # ys)"

section \<open>Configuration (config.py)\<close>

record ConversionConfig =
  start_page :: int
  end_page :: "int option"
  multi_processing :: bool
  cpu_count :: "int option"
  preserve_layout :: bool
  preserve_images :: bool
  preserve_tables :: bool
  overwrite :: bool
  create_backup_flag :: bool
  table_settings :: "(string \<times> rat) list"
  verbose :: bool
  log_file :: "path option"

text \<open>The field \<open>create_backup\<close> is named \<open>create_backup_flag\<close> here, because the
  function \<open>create_backup\<close> of utils.py keeps its name below.\<close>

definition validate :: "'a ConversionConfig_scheme \<Rightarrow> string list" where
  "validate c =
     (let errors = [];
          errors = (if start_page c < 0
                    then errors @ [''start_page must be non-negative''] else errors);
          errors = (case end_page c of
                      None \<Rightarrow> errors
                    | Some e \<Rightarrow> if e < start_page c
                        then errors @ [''end_page must be >= start_page''] else errors);
          errors = (case cpu_count c of
                      None \<Rightarrow> errors
                    | Some n \<Rightarrow> if n < 1
                        then errors @ [''cpu_count must be >= 1''] else errors)
      in errors)"

definition DEFAULT_CONFIG :: ConversionConfig where
  "DEFAULT_CONFIG =
     \<lparr> start_page = 0, end_page = None, multi_processing = False, cpu_count = None,
       preserve_layout = True, preserve_images = True, preserve_tables = True,
       overwrite = False, create_backup_flag = False,
       table_settings =
         [(''min_border_vertical'', 1 / 2), (''min_border_horizontal'', 1 / 2),
          (''intersection_threshold'', 1 / 4), (''min_words_vertical'', 3),
          (''min_words_horizontal'', 1)],
       verbose = True, log_file = None \<rparr>"

section \<open>File system, trace of effects and collaborators\<close>

text \<open>
  The file system is a finite table from paths to nodes; the first entry for a path is
  the current one. A directory carries the size that \<open>stat\<close> reports for it.
\<close>

datatype node = File string | Dir nat

type_synonym fs = "(path \<times> node) list"

definition path_exists :: "fs \<Rightarrow> path \<Rightarrow> bool" where
  "path_exists fs p = (map_of fs p \<noteq> None)"

definition is_file :: "fs \<Rightarrow> path \<Rightarrow> bool" where
  "is_file fs p = (case map_of fs p of Some (File c) \<Rightarrow> True | _ \<Rightarrow> False)"

definition is_dir :: "fs \<Rightarrow> path \<Rightarrow> bool" where
  "is_dir fs p = (case map_of fs p of Some (Dir n) \<Rightarrow> True | _ \<Rightarrow> False)"

text \<open>\<open>path.stat().st_size\<close>; the code only calls it on a path it has just seen to
  exist, so the value for a missing path is never used.\<close>

definition st_size :: "fs \<Rightarrow> path \<Rightarrow> nat" where
  "st_size fs p =
     (case map_of fs p of Some (File c) \<Rightarrow> length c | Some (Dir n) \<Rightarrow> n | None \<Rightarrow> 0)"

datatype level = DEBUG | INFO | WARNING | ERROR

text \<open>The dictionary that \<open>get_file_info\<close> returns, without its \<open>metadata\<close> entry,
  which no code of the package reads.\<close>

record file_info =
  info_path :: string
  info_name :: string
  info_size :: nat
  info_pages :: nat
  info_encrypted :: bool

text \<open>
  Log records and console output are kept by what they report; the text layout of a
  message, and \<open>format_file_size\<close> (floating-point formatting), are not modelled.
\<close>

datatype log_msg =
    MsgPdfFile string
  | MsgSize nat
  | MsgPages nat
  | MsgEncrypted bool
  | MsgEncryptedWarning
  | MsgCreatedBackup path
  | MsgFailedToCreateBackup
  | MsgStartingConversion path
  | MsgMayTakeAMoment
  | MsgConversionComplete
  | MsgOutputFile path
  | MsgOutputSize nat
  | MsgConversionFailed exn
  | MsgCouldNotReadPdfInfo exn
  | MsgBackupCopyFailed exn

datatype cli_msg =
    CliPdfNotFound path
  | CliPdfInformation file_info
  | CliConversionSuccessful path nat
  | CliConversionCancelled
  | CliError exn
  | CliTraceback exn

text \<open>The handle of a pdf2docx conversion session, opened against an input path.\<close>

datatype session = Session path

text \<open>
  Every call to a collaborator, every log record, every progress callback and every
  console line is an event; a run appends its events to the trace in order.
\<close>

datatype event =
    FitzOpen path
  | Mkdir path
  | Copy2 path path
  | OpenLogFile path
  | SessionOpened session
  | SessionOpenFailed path
  | SessionConvert session path int "int option"
  | SessionClose session
  | Log level log_msg
  | Callback nat int int
  | Stdout cli_msg
  | Stderr cli_msg

record world =
  files :: fs
  trace :: "event list"

definition emit :: "event \<Rightarrow> world \<Rightarrow> world" where
  "emit e w = w\<lparr>trace := trace w @ [e]\<rparr>"

record doc_info =
  page_count :: nat
  is_encrypted :: bool

text \<open>
  The collaborators, as parameters. Each one sees the whole world at the time of the
  call (files and trace), so two calls at different moments may answer differently.
  \<^item> \<open>fitz_open\<close>: \<open>fitz.open\<close> followed by reading the page count and the encryption
    flag and closing the document; one outcome for the whole sequence.
  \<^item> \<open>os_mkdir\<close>: \<open>parent.mkdir(parents=True, exist_ok=True)\<close>; the error, if any, and
    the files afterwards.
  \<^item> \<open>copy2_error\<close>: whether \<open>shutil.copy2\<close> of a regular file to a fresh path fails.
  \<^item> \<open>open_log_file\<close>: \<open>logging.FileHandler(log_file)\<close>, which opens the file.
  \<^item> \<open>session_open\<close>: \<open>pdf2docx.Converter(str(pdf_path))\<close>.
  \<^item> \<open>session_convert\<close>: \<open>Converter.convert(docx, start=, end=)\<close>; the error, if any,
    and the files afterwards (a failed conversion may leave partial output).
  \<open>Converter.close()\<close> does not fail (the collaborator contract gives it no failure), and
  a session handle is truthy.
\<close>

record env =
  fitz_open :: "world \<Rightarrow> path \<Rightarrow> exn + doc_info"
  os_mkdir :: "world \<Rightarrow> path \<Rightarrow> exn option \<times> fs"
  copy2_error :: "world \<Rightarrow> path \<Rightarrow> path \<Rightarrow> exn option"
  open_log_file :: "world \<Rightarrow> path \<Rightarrow> exn option \<times> fs"
  session_open :: "world \<Rightarrow> path \<Rightarrow> exn option"
  session_convert ::
    "world \<Rightarrow> session \<Rightarrow> path \<Rightarrow> int \<Rightarrow> int option \<Rightarrow> exn option \<times> fs"

section \<open>Utilities (utils.py)\<close>

definition validate_pdf ::
    "env \<Rightarrow> world \<Rightarrow> path \<Rightarrow> (exn + bool \<times> string option) \<times> world" where
  "validate_pdf E w pdf_path =
     (if \<not> path_exists (files w) pdf_path
      then (Inr (False, Some (''File not found: '' @ pdf_path)), w)
      else if \<not> is_file (files w) pdf_path
      then (Inr (False, Some (''Path is not a file: '' @ pdf_path)), w)
      else if lower (path_suffix pdf_path) \<noteq> ''.pdf''
      then (Inr (False, Some (''File is not a PDF: '' @ pdf_path)), w)
      else
        let w1 = emit (FitzOpen pdf_path) w in
        case fitz_open E w pdf_path of
          Inr doc \<Rightarrow>
            if page_count doc = 0 then (Inr (False, Some ''PDF has no pages''), w1)
            else (Inr (True, None), w1)
        | Inl e \<Rightarrow>
            if is_Exception e
            then (Inr (False, Some (''Invalid PDF file: '' @ exn_str e)), w1)
            else (Inl e, w1))"

definition validate_output_path ::
    "env \<Rightarrow> world \<Rightarrow> path \<Rightarrow> bool \<Rightarrow> (exn + bool \<times> string option) \<times> world" where
  "validate_output_path E w docx_path overwrite_ok =
     (if lower (path_suffix docx_path) \<noteq> ''.docx''
      then (Inr (False, Some (''Output file must have .docx extension: '' @ docx_path)), w)
      else if path_exists (files w) docx_path \<and> \<not> overwrite_ok
      then (Inr (False, Some (''Output file already exists: '' @ docx_path @
                ''. Use overwrite=True to replace.'')), w)
      else
        let parent = path_parent docx_path;
            (mk, w1) =
              (if \<not> path_exists (files w) parent
               then (let (r, fs') = os_mkdir E w parent
                     in (r, emit (Mkdir parent) (w\<lparr>files := fs'\<rparr>)))
               else (None, w))
        in case mk of
             Some e \<Rightarrow>
               if is_Exception e
               then (Inr (False, Some (''Cannot create output directory: '' @ exn_str e)), w1)
               else (Inl e, w1)
           | None \<Rightarrow>
               if \<not> is_dir (files w1) parent
               then (Inr (False, Some (''Output path parent is not a directory: '' @ parent)), w1)
               else (Inr (True, None), w1))"

definition get_file_info :: "env \<Rightarrow> world \<Rightarrow> path \<Rightarrow> (exn + file_info) \<times> world" where
  "get_file_info E w pdf_path =
     (let info = \<lparr> info_path = pdf_path, info_name = path_name pdf_path,
                   info_size = (if path_exists (files w) pdf_path
                                then st_size (files w) pdf_path else 0),
                   info_pages = 0, info_encrypted = False \<rparr>;
          w1 = emit (FitzOpen pdf_path) w
      in case fitz_open E w pdf_path of
           Inr doc \<Rightarrow>
             (Inr (info\<lparr>info_pages := page_count doc, info_encrypted := is_encrypted doc\<rparr>), w1)
         | Inl e \<Rightarrow>
             if is_Exception e
             then (Inr info, emit (Log WARNING (MsgCouldNotReadPdfInfo e)) w1)
             else (Inl e, w1))"

text \<open>\<open>shutil.copy2(src, dst)\<close> for a destination that does not exist: a missing source
  or a directory as source fails; otherwise the collaborator decides, and a successful
  copy creates the destination with the contents of the source.\<close>

definition copy2 :: "env \<Rightarrow> world \<Rightarrow> path \<Rightarrow> path \<Rightarrow> exn option \<times> world" where
  "copy2 E w src dst =
     (let w1 = emit (Copy2 src dst) w in
      case map_of (files w) src of
        None \<Rightarrow> (Some (OtherException ''No such file or directory''), w1)
      | Some (Dir n) \<Rightarrow> (Some (OtherException ''Is a directory''), w1)
      | Some (File c) \<Rightarrow>
          (case copy2_error E w src dst of
             Some e \<Rightarrow> (Some e, w1)
           | None \<Rightarrow> (None, w1\<lparr>files := (dst, File c) # files w1\<rparr>)))"

subsection \<open>Facts about paths and decimal numerals\<close>

lemma rfind_split:
  assumes "c \<in> set s"
  shows "\<exists>a b. s = a @ c # b \<and> c \<notin> set b \<and> rfind s c = int (length a)"
proof -
  define t where "t = takeWhile (\<lambda>x. x \<noteq> c) (rev s)"
  define d where "d = dropWhile (\<lambda>x. x \<noteq> c) (rev s)"
  have td: "rev s = t @ d"
    unfolding t_def d_def by simp
  have dne: "d \<noteq> []"
    using assms unfolding d_def by simp
  have "hd (dropWhile (\<lambda>x. x \<noteq> c) (rev s)) = c"
    using hd_dropWhile[of "\<lambda>x. x \<noteq> c" "rev s"] dne unfolding d_def by simp
  then have "hd d = c"
    unfolding d_def .
  with dne have r: "d = c # tl d"
    by (cases d) simp_all
  have "s = rev (rev s)" by simp
  also have "\<dots> = rev (tl d) @ c # rev t"
    by (subst td, subst r) simp
  finally have nm: "s = rev (tl d) @ c # rev t" .
  have notin: "c \<notin> set (rev t)"
    unfolding t_def by (auto dest: set_takeWhileD)
  have "length s = length (rev (rev s))" by simp
  also have "\<dots> = length (tl d) + 1 + length t"
    by (subst td, subst r) simp
  finally have "rfind s c = int (length (rev (tl d)))"
    using assms unfolding rfind_def t_def[symmetric] by simp
  then have "s = rev (tl d) @ c # rev t \<and> c \<notin> set (rev t) \<and> rfind s c = int (length (rev (tl d)))"
    using nm notin by (intro conjI)
  then show ?thesis by (intro exI)
qed

lemma digit_char_inj: "a < 10 \<Longrightarrow> b < 10 \<Longrightarrow> digit_char a = digit_char b \<Longrightarrow> a = b"
proof -
  have d: "distinct ''0123456789''" by simp
  assume "a < 10" "b < 10" "digit_char a = digit_char b"
  then show ?thesis using d unfolding digit_char_def
    by (simp add: nth_eq_iff_index_eq)
qed

lemma str_nat_nonempty: "str_nat n \<noteq> []"
  by (subst str_nat.simps) simp

lemma str_nat_inj: "str_nat n = str_nat m \<Longrightarrow> n = m"
proof (induction n arbitrary: m rule: str_nat.induct)
  case (1 n)
  show ?case
  proof (cases "n < 10")
    case True
    show ?thesis
    proof (cases "m < 10")
      case True
      with \<open>n < 10\<close> "1.prems" show ?thesis
        by (simp add: str_nat.simps[of n] str_nat.simps[of m] digit_char_inj)
    next
      case False
      with \<open>n < 10\<close> "1.prems" show ?thesis
        using str_nat_nonempty[of "m div 10"]
        by (simp add: str_nat.simps[of n] str_nat.simps[of m])
    qed
  next
    case False
    show ?thesis
    proof (cases "m < 10")
      case True
      with False "1.prems" show ?thesis
        using str_nat_nonempty[of "n div 10"]
        by (simp add: str_nat.simps[of n] str_nat.simps[of m])
    next
      case mf: False
      from False mf "1.prems"
      have e: "str_nat (n div 10) = str_nat (m div 10)" "digit_char (n mod 10) = digit_char (m mod 10)"
        by (simp_all add: str_nat.simps[of n] str_nat.simps[of m])
      from "1.IH"[OF False e(1)] have "n div 10 = m div 10" .
      moreover from e(2) have "n mod 10 = m mod 10"
        by (intro digit_char_inj) simp_all
      ultimately show ?thesis
        by (metis div_mult_mod_eq)
    qed
  qed
qed

lemma take_rev_takeWhile:
  "take (length p - length (takeWhile P (rev p))) p @ rev (takeWhile P (rev p)) = p"
proof -
  have "rev p = takeWhile P (rev p) @ dropWhile P (rev p)" by simp
  then have "p = rev (dropWhile P (rev p)) @ rev (takeWhile P (rev p))"
    by (metis rev_append rev_rev_ident)
  moreover have "length (rev (dropWhile P (rev p))) = length p - length (takeWhile P (rev p))"
    by (metis \<open>rev p = takeWhile P (rev p) @ dropWhile P (rev p)\<close> add_diff_cancel_left' length_append length_rev)
  ultimately show ?thesis
    by (metis append_eq_conv_conj)
qed

lemma path_name_split:
  "path_name p \<noteq> [] \<Longrightarrow> take (length p - length (path_name p)) p @ path_name p = p"
  using take_rev_takeWhile[of p "\<lambda>c. c \<noteq> CHR ''/''"]
  by (auto simp: path_name_def split: if_splits)

lemma path_name_no_sep: "CHR ''/'' \<notin> set (path_name p)"
  by (auto simp: path_name_def dest: set_takeWhileD)

lemma path_suffix_cases:
  "path_suffix p = [] \<or>
   (hd (path_suffix p) = CHR ''.'' \<and>
    take (length (path_name p) - length (path_suffix p)) (path_name p) @ path_suffix p = path_name p)"
proof (cases "0 < rfind (path_name p) (CHR ''.'') \<and> rfind (path_name p) (CHR ''.'') < int (length (path_name p)) - 1")
  case False
  have "path_suffix p = []"
    unfolding path_suffix_def Let_def by (simp only: False if_False)
  then show ?thesis by (intro disjI1)
next
  case True
  then have "CHR ''.'' \<in> set (path_name p)"
    by (auto simp: rfind_def split: if_splits)
  from rfind_split[OF this] obtain a b
    where ab: "path_name p = a @ CHR ''.'' # b" and i: "rfind (path_name p) (CHR ''.'') = int (length a)"
    by auto
  have "drop (length a) (path_name p) = CHR ''.'' # b"
    by (subst ab) simp
  then have sfx: "path_suffix p = CHR ''.'' # b"
    using True i by (simp add: path_suffix_def Let_def)
  have "take (length (path_name p) - length (CHR ''.'' # b)) (path_name p) = a"
    by (subst ab, subst ab) simp
  then show ?thesis
    unfolding sfx using ab by simp
qed

lemma path_suffix_no_sep: "CHR ''/'' \<notin> set (path_suffix p)"
proof -
  have "set (path_suffix p) \<subseteq> set (path_name p)"
    by (auto simp: path_suffix_def Let_def dest: in_set_dropD)
  then show ?thesis
    using path_name_no_sep[of p] by auto
qed

lemma with_suffix_append:
  assumes "path_name p \<noteq> []" "CHR ''/'' \<notin> set s" "hd s = CHR ''.''" "2 \<le> length s"
  shows "with_suffix p (path_suffix p @ s) = Inr (p @ s)"
proof -
  define suf where "suf = path_suffix p"
  define name where "name = path_name p"
  from assms(4) have sne: "s \<noteq> []" by auto
  have a: "CHR ''/'' \<notin> set (suf @ s)"
    using assms(2) path_suffix_no_sep[of p] by (simp add: suf_def)
  have b: "hd (suf @ s) = CHR ''.''"
    using path_suffix_cases[of p] assms(3) by (auto simp: hd_append suf_def)
  have c: "suf @ s \<noteq> ''.''"
    using assms(4) by (cases suf) (auto simp: Cons_eq_append_conv)
  have ne: "suf @ s \<noteq> []"
    using sne by simp
  have nn: "name \<noteq> []"
    using assms(1) by (simp add: name_def)
  have d: "(if suf = [] then name @ suf @ s
            else take (length name - length suf) name @ suf @ s) = name @ s"
  proof (cases "suf = []")
    case True
    then show ?thesis by simp
  next
    case False
    then have "take (length name - length suf) name @ suf = name"
      using path_suffix_cases[of p] by (simp add: suf_def name_def)
    then have "(take (length name - length suf) name @ suf) @ s = name @ s"
      by simp
    then show ?thesis using False by simp
  qed
  have e: "take (length p - length name) p @ name = p"
    using path_name_split[OF assms(1)] by (simp add: name_def)
  have "with_suffix p (suf @ s) =
      Inr (take (length p - length name) p @
        (if suf = [] then name @ suf @ s
         else take (length name - length suf) name @ suf @ s))"
    unfolding with_suffix_def Let_def suf_def[symmetric] name_def[symmetric]
    by (simp only: a b c ne nn if_False if_True simp_thms)
  also have "\<dots> = Inr ((take (length p - length name) p @ name) @ s)"
    by (simp only: d append_assoc)
  also have "\<dots> = Inr (p @ s)"
    by (simp only: e)
  finally show ?thesis
    by (simp add: suf_def)
qed

subsection \<open>Backups\<close>

text \<open>The name tried in the body of the probing loop:
  \<open>file_path.with_suffix(f"{file_path.suffix}.bak.{counter}")\<close>.\<close>

definition backup_candidate :: "path \<Rightarrow> nat \<Rightarrow> exn + path" where
  "backup_candidate file_path counter =
     with_suffix file_path (path_suffix file_path @ ''.bak.'' @ str_nat counter)"

lemma str_nat_no_sep: "CHR ''/'' \<notin> set (str_nat n)"
proof (induction n rule: str_nat.induct)
  case (1 n)
  have dc: "\<And>d. d < 10 \<Longrightarrow> digit_char d \<noteq> CHR ''/''"
  proof -
    fix d :: nat assume "d < 10"
    then have "digit_char d \<in> set ''0123456789''"
      unfolding digit_char_def by (intro nth_mem) simp
    then show "digit_char d \<noteq> CHR ''/''" by auto
  qed
  show ?case
  proof (cases "n < 10")
    case True
    then show ?thesis using dc[of n] by (subst str_nat.simps) simp
  next
    case False
    then show ?thesis using dc[of "n mod 10"] "1.IH"
      by (subst str_nat.simps) simp
  qed
qed

lemma backup_candidate_eq:
  "backup_candidate p n =
     (if path_name p = [] then Inl (ValueError ''path has an empty name'')
      else Inr (p @ ''.bak.'' @ str_nat n))"
proof (cases "path_name p = []")
  case True
  have a: "CHR ''/'' \<notin> set (path_suffix p @ ''.bak.'' @ str_nat n)"
    using path_suffix_no_sep[of p] str_nat_no_sep[of n] by simp
  have b: "hd (path_suffix p @ ''.bak.'' @ str_nat n) = CHR ''.''"
    using path_suffix_cases[of p] by (auto simp: hd_append)
  have c: "path_suffix p @ ''.bak.'' @ str_nat n \<noteq> ''.''"
    by (cases "path_suffix p") (auto simp: Cons_eq_append_conv)
  show ?thesis
    using True a b c by (simp add: backup_candidate_def with_suffix_def)
next
  case False
  have "with_suffix p (path_suffix p @ (''.bak.'' @ str_nat n)) = Inr (p @ (''.bak.'' @ str_nat n))"
    using False str_nat_no_sep[of n] by (intro with_suffix_append) simp_all
  then show ?thesis
    using False by (simp add: backup_candidate_def)
qed

lemma backup_candidate_inj:
  "backup_candidate p n = Inr q \<Longrightarrow> backup_candidate p m = Inr q \<Longrightarrow> n = m"
  by (auto simp: backup_candidate_eq split: if_splits dest: str_nat_inj)

text \<open>The counters from \<open>c\<close> on whose candidate exists: the measure of the probing loop.\<close>

definition taken_from :: "fs \<Rightarrow> path \<Rightarrow> nat \<Rightarrow> nat set" where
  "taken_from fs p c = {n. c \<le> n \<and> (\<exists>q. backup_candidate p n = Inr q \<and> path_exists fs q)}"

lemma finite_taken_from: "finite (taken_from fs p c)"
proof -
  let ?A = "{n. \<exists>q. backup_candidate p n = Inr q}"
  let ?F = "Inr ` dom (map_of fs) :: (exn + path) set"
  have inj: "inj_on (backup_candidate p) ?A"
    by (auto simp: inj_on_def dest: backup_candidate_inj)
  have "finite ?F"
    by (simp add: finite_dom_map_of)
  then have "finite (backup_candidate p -` ?F \<inter> ?A)"
    using inj by (rule finite_vimage_IntI)
  moreover have "taken_from fs p c \<subseteq> backup_candidate p -` ?F \<inter> ?A"
    by (auto simp: taken_from_def path_exists_def)
  ultimately show ?thesis
    by (rule rev_finite_subset)
qed

lemma taken_from_Suc:
  "taken_from fs p c =
     (if \<exists>q. backup_candidate p c = Inr q \<and> path_exists fs q then {c} else {}) \<union>
     taken_from fs p (Suc c)"
  by (auto simp: taken_from_def Suc_le_eq order_le_less)

lemma card_taken_from_Suc:
  "card (taken_from fs p c) =
     (if \<exists>q. backup_candidate p c = Inr q \<and> path_exists fs q then 1 else 0) +
     card (taken_from fs p (Suc c))"
proof -
  have notin: "c \<notin> taken_from fs p (Suc c)"
    by (simp add: taken_from_def)
  show ?thesis
    by (subst taken_from_Suc) (simp add: finite_taken_from notin)
qed

text \<open>The loop \<open>while backup_path.exists(): ...\<close> of \<open>create_backup\<close>.\<close>

function find_unique_backup :: "fs \<Rightarrow> path \<Rightarrow> nat \<Rightarrow> path \<Rightarrow> exn + path" where
  "find_unique_backup fs file_path counter backup_path =
     (if path_exists fs backup_path
      then (case backup_candidate file_path counter of
              Inl e \<Rightarrow> Inl e
            | Inr backup_path' \<Rightarrow> find_unique_backup fs file_path (counter + 1) backup_path')
      else Inr backup_path)"
  by pat_completeness auto
termination
proof (relation "measure (\<lambda>(fs, p, c, b). card (taken_from fs p c) + (if path_exists fs b then 1 else 0))")
  show "wf (measure (\<lambda>(fs, p, c, b). card (taken_from fs p c) + (if path_exists fs b then 1 else 0)))"
    by simp
next
  fix fs :: fs and file_path :: path and counter :: nat and backup_path x2 :: path
  assume ex: "path_exists fs backup_path" and c: "backup_candidate file_path counter = Inr x2"
  show "((fs, file_path, counter + 1, x2), (fs, file_path, counter, backup_path))
        \<in> measure (\<lambda>(fs, p, c, b). card (taken_from fs p c) + (if path_exists fs b then 1 else 0))"
    using ex c by (simp add: card_taken_from_Suc[of fs file_path counter])
qed

declare find_unique_backup.simps [simp del]

definition create_backup :: "env \<Rightarrow> world \<Rightarrow> path \<Rightarrow> (exn + path option) \<times> world" where
  "create_backup E w file_path =
     (if \<not> path_exists (files w) file_path then (Inr None, w)
      else
        case with_suffix file_path (path_suffix file_path @ ''.bak'') of
          Inl e \<Rightarrow> (Inl e, w)
        | Inr backup_path0 \<Rightarrow>
            (case find_unique_backup (files w) file_path 1 backup_path0 of
               Inl e \<Rightarrow> (Inl e, w)
             | Inr backup_path \<Rightarrow>
                 (case copy2 E w file_path backup_path of
                    (None, w1) \<Rightarrow> (Inr (Some backup_path), w1)
                  | (Some e, w1) \<Rightarrow>
                      if is_Exception e
                      then (Inr None, emit (Log ERROR (MsgBackupCopyFailed e)) w1)
                      else (Inl e, w1))))"

text \<open>The name \<open><path>.bak.<n>\<close>.\<close>

definition numbered_backup :: "path \<Rightarrow> nat \<Rightarrow> path" where
  "numbered_backup p n = p @ ''.bak.'' @ str_nat n"

text \<open>\<open>setup_logging\<close>: the handlers of the shared logger are replaced; with a log file,
  a file handler opens it. The logger object itself is not modelled: every call to a
  logging function is an event of the trace, whatever the level thresholds.\<close>

definition setup_logging :: "env \<Rightarrow> world \<Rightarrow> bool \<Rightarrow> path option \<Rightarrow> exn option \<times> world" where
  "setup_logging E w verbose_flag log_file_opt =
     (case log_file_opt of
        None \<Rightarrow> (None, w)
      | Some lf \<Rightarrow>
          (let (r, fs') = open_log_file E w lf
           in (r, emit (OpenLogFile lf) (w\<lparr>files := fs'\<rparr>))))"

section \<open>The converter (converter.py)\<close>

text \<open>The instance state of \<open>PDFToDOCXConverter\<close>. A registered progress callback is
  known by a number; its calls are \<open>Callback\<close> events, and it does not raise.\<close>

record PDFToDOCXConverter =
  pdf_path :: path
  docx_path :: path
  config :: ConversionConfig
  converter :: "session option"
  progress_callback :: "nat option"

text \<open>\<open>__init__\<close>.\<close>

definition dunder_init ::
    "env \<Rightarrow> world \<Rightarrow> path \<Rightarrow> path option \<Rightarrow> ConversionConfig option
      \<Rightarrow> (exn + PDFToDOCXConverter) \<times> world" where
  "dunder_init E w pdf_path_arg docx_path_arg config_arg =
     (let cfg = (case config_arg of None \<Rightarrow> DEFAULT_CONFIG | Some c \<Rightarrow> c) in
      case validate_pdf E w pdf_path_arg of
        (Inl e, w1) \<Rightarrow> (Inl e, w1)
      | (Inr (is_valid, error), w1) \<Rightarrow>
          if \<not> is_valid
          then (Inl (ValueError (''Invalid PDF file: '' @
                  (case error of None \<Rightarrow> ''None'' | Some m \<Rightarrow> m))), w1)
          else
            (case (case docx_path_arg of
                    Some d \<Rightarrow> Inr d
                  | None \<Rightarrow> with_suffix pdf_path_arg ''.docx'') of
              Inl e \<Rightarrow> (Inl e, w1)
            | Inr docx \<Rightarrow>
                (case validate_output_path E w1 docx (overwrite cfg) of
                   (Inl e, w2) \<Rightarrow> (Inl e, w2)
                 | (Inr (is_valid2, error2), w2) \<Rightarrow>
                     if \<not> is_valid2
                     then (Inl (ValueError (''Invalid output path: '' @
                             (case error2 of None \<Rightarrow> ''None'' | Some m \<Rightarrow> m))), w2)
                     else
                       (case setup_logging E w2 (verbose cfg) (log_file cfg) of
                          (Some e, w3) \<Rightarrow> (Inl e, w3)
                        | (None, w3) \<Rightarrow>
                            (Inr \<lparr> pdf_path = pdf_path_arg, docx_path = docx, config = cfg,
                                   converter = None, progress_callback = None \<rparr>, w3)))))"

definition set_progress_callback :: "PDFToDOCXConverter \<Rightarrow> nat \<Rightarrow> PDFToDOCXConverter" where
  "set_progress_callback s callback = s\<lparr>progress_callback := Some callback\<rparr>"

text \<open>\<open>_log_file_info\<close>.\<close>

definition log_file_info :: "env \<Rightarrow> world \<Rightarrow> PDFToDOCXConverter \<Rightarrow> exn option \<times> world" where
  "log_file_info E w s =
     (case get_file_info E w (pdf_path s) of
        (Inl e, w1) \<Rightarrow> (Some e, w1)
      | (Inr info, w1) \<Rightarrow>
          (let w2 = emit (Log INFO (MsgPdfFile (info_name info))) w1;
               w3 = emit (Log INFO (MsgSize (info_size info))) w2;
               w4 = emit (Log INFO (MsgPages (info_pages info))) w3;
               w5 = emit (Log INFO (MsgEncrypted (info_encrypted info))) w4
           in (None, if info_encrypted info
                     then emit (Log WARNING MsgEncryptedWarning) w5 else w5)))"

text \<open>\<open>_create_backup_if_needed\<close>.\<close>

definition create_backup_if_needed ::
    "env \<Rightarrow> world \<Rightarrow> PDFToDOCXConverter \<Rightarrow> exn option \<times> world" where
  "create_backup_if_needed E w s =
     (if path_exists (files w) (docx_path s) \<and> create_backup_flag (config s)
      then (case create_backup E w (docx_path s) of
              (Inl e, w1) \<Rightarrow> (Some e, w1)
            | (Inr (Some backup_path), w1) \<Rightarrow>
                (None, emit (Log INFO (MsgCreatedBackup backup_path)) w1)
            | (Inr None, w1) \<Rightarrow>
                (None, emit (Log WARNING MsgFailedToCreateBackup) w1))
      else (None, w))"

text \<open>The body of the \<open>try\<close> block of \<open>convert\<close>.\<close>

definition convert_try_body ::
    "env \<Rightarrow> world \<Rightarrow> PDFToDOCXConverter \<Rightarrow> (exn + path) \<times> PDFToDOCXConverter \<times> world" where
  "convert_try_body E w s =
     (case session_open E w (pdf_path s) of
        Some e \<Rightarrow> (Inl e, s, emit (SessionOpenFailed (pdf_path s)) w)
      | None \<Rightarrow>
          (let h = Session (pdf_path s);
               s1 = s\<lparr>converter := Some h\<rparr>;
               w1 = emit (SessionOpened h) w;
               start = start_page (config s);
               end' = end_page (config s);
               (r, fs') = session_convert E w1 h (docx_path s) start end';
               w2 = emit (SessionConvert h (docx_path s) start end') (w1\<lparr>files := fs'\<rparr>)
           in case r of
                Some e \<Rightarrow> (Inl e, s1, w2)
              | None \<Rightarrow>
                  if \<not> path_exists (files w2) (docx_path s)
                  then (Inl (RuntimeError
                          ''Conversion completed but output file was not created'' None),
                        s1, w2)
                  else
                    (let output_size = st_size (files w2) (docx_path s);
                         w3 = emit (Log INFO MsgConversionComplete) w2;
                         w4 = emit (Log INFO (MsgOutputFile (docx_path s))) w3;
                         w5 = emit (Log INFO (MsgOutputSize output_size)) w4
                     in (Inr (docx_path s), s1, w5))))"

text \<open>The clause \<open>except Exception as e\<close> of \<open>convert\<close>.\<close>

definition convert_except ::
    "(exn + path) \<times> PDFToDOCXConverter \<times> world
      \<Rightarrow> (exn + path) \<times> PDFToDOCXConverter \<times> world" where
  "convert_except x =
     (case x of
        (Inl e, s, w) \<Rightarrow>
          if is_Exception e
          then (Inl (RuntimeError (''Failed to convert PDF: '' @ exn_str e) (Some e)), s,
                emit (Log ERROR (MsgConversionFailed e)) w)
          else (Inl e, s, w)
      | (Inr p, s, w) \<Rightarrow> (Inr p, s, w))"

text \<open>The clause \<open>finally\<close> of \<open>convert\<close>.\<close>

definition convert_finally ::
    "(exn + path) \<times> PDFToDOCXConverter \<times> world
      \<Rightarrow> (exn + path) \<times> PDFToDOCXConverter \<times> world" where
  "convert_finally x =
     (case x of
        (r, s, w) \<Rightarrow>
          (case converter s of
             Some h \<Rightarrow> (r, s\<lparr>converter := None\<rparr>, emit (SessionClose h) w)
           | None \<Rightarrow> (r, s, w)))"

definition convert_try ::
    "env \<Rightarrow> world \<Rightarrow> PDFToDOCXConverter \<Rightarrow> (exn + path) \<times> PDFToDOCXConverter \<times> world" where
  "convert_try E w s = convert_finally (convert_except (convert_try_body E w s))"

definition convert ::
    "env \<Rightarrow> world \<Rightarrow> PDFToDOCXConverter \<Rightarrow> (exn + path) \<times> PDFToDOCXConverter \<times> world" where
  "convert E w s =
     (let config_errors = validate (config s) in
      if config_errors \<noteq> []
      then (Inl (ValueError (''Invalid configuration: '' @ join '', '' config_errors)), s, w)
      else
        (case log_file_info E w s of
          (Some e, w1) \<Rightarrow> (Inl e, s, w1)
        | (None, w1) \<Rightarrow>
            (case create_backup_if_needed E w1 s of
               (Some e, w2) \<Rightarrow> (Inl e, s, w2)
             | (None, w2) \<Rightarrow>
                 convert_try E
                   (emit (Log INFO MsgMayTakeAMoment)
                     (emit (Log INFO (MsgStartingConversion (docx_path s))) w2)) s)))"

text \<open>The world in which \<open>convert\<close> enters its \<open>try\<close> block, after the two log
  records that announce the conversion.\<close>

definition try_entry :: "PDFToDOCXConverter \<Rightarrow> world \<Rightarrow> world" where
  "try_entry s w =
     emit (Log INFO MsgMayTakeAMoment) (emit (Log INFO (MsgStartingConversion (docx_path s))) w)"

text \<open>The world after a backup whose copy to \<open>b\<close> failed with \<open>e\<close>: the attempted copy,
  the error record of \<open>create_backup\<close> and the warning of \<open>_create_backup_if_needed\<close>.\<close>

definition after_failed_backup :: "PDFToDOCXConverter \<Rightarrow> path \<Rightarrow> exn \<Rightarrow> world \<Rightarrow> world" where
  "after_failed_backup s b e w =
     emit (Log WARNING MsgFailedToCreateBackup)
       (emit (Log ERROR (MsgBackupCopyFailed e)) (emit (Copy2 (docx_path s) b) w))"

text \<open>Names for the two errors that the \<open>try\<close> block of \<open>convert\<close> raises: the
  one for a missing output file, and the wrapper that \<open>except Exception as e\<close> puts
  around any error \<open>e\<close>.\<close>

definition OutputNotProduced :: exn where
  "OutputNotProduced =
     RuntimeError ''Conversion completed but output file was not created'' None"

definition ConversionFailed :: "exn \<Rightarrow> exn" where
  "ConversionFailed cause = RuntimeError (''Failed to convert PDF: '' @ exn_str cause) (Some cause)"

text \<open>\<open>pages_to_convert\<close> of \<open>convert_with_progress\<close>. Python's
  \<open>self.config.end_page or total_pages\<close> takes \<open>total_pages\<close> when \<open>end_page\<close> is
  \<open>None\<close> and also when it is \<open>0\<close>.\<close>

definition pages_to_convert :: "ConversionConfig \<Rightarrow> int \<Rightarrow> int" where
  "pages_to_convert cfg total_pages =
     (let start = start_page cfg;
          end' = (case end_page cfg of
                    None \<Rightarrow> total_pages
                  | Some e \<Rightarrow> if e = 0 then total_pages else e)
      in end' - start + 1)"

definition call_progress :: "PDFToDOCXConverter \<Rightarrow> int \<Rightarrow> int \<Rightarrow> world \<Rightarrow> world" where
  "call_progress s current total_pages w =
     (case progress_callback s of
        Some cb \<Rightarrow> emit (Callback cb current total_pages) w
      | None \<Rightarrow> w)"

definition convert_with_progress ::
    "env \<Rightarrow> world \<Rightarrow> PDFToDOCXConverter \<Rightarrow> (exn + path) \<times> PDFToDOCXConverter \<times> world" where
  "convert_with_progress E w s =
     (case get_file_info E w (pdf_path s) of
        (Inl e, w1) \<Rightarrow> (Inl e, s, w1)
      | (Inr info, w1) \<Rightarrow>
          (let total_pages = int (info_pages info);
               n = pages_to_convert (config s) total_pages;
               w2 = call_progress s 0 n w1
           in case convert E w2 s of
                (Inr result, s', w3) \<Rightarrow> (Inr result, s', call_progress s' n n w3)
              | (Inl e, s', w3) \<Rightarrow>
                  if is_Exception e then (Inl e, s', call_progress s' 0 n w3)
                  else (Inl e, s', w3)))"

text \<open>\<open>__enter__\<close> and \<open>__exit__\<close>.\<close>

definition dunder_enter :: "PDFToDOCXConverter \<Rightarrow> PDFToDOCXConverter" where
  "dunder_enter s = s"

definition dunder_exit :: "world \<Rightarrow> PDFToDOCXConverter \<Rightarrow> bool \<times> PDFToDOCXConverter \<times> world" where
  "dunder_exit w s =
     (case converter s of
        Some h \<Rightarrow> (False, s\<lparr>converter := None\<rparr>, emit (SessionClose h) w)
      | None \<Rightarrow> (False, s, w))"

section \<open>Command line (cli.py)\<close>

text \<open>
  The namespace that \<open>parser.parse_args(args)\<close> returns. Parsing itself is argparse's
  and happens before the \<open>try\<close> block of \<open>main\<close>: on a usage error or \<open>--help\<close>
  argparse leaves the process on its own (\<open>SystemExit\<close>) and \<open>main\<close> returns nothing.
  \<open>main\<close> is modelled from the parsed namespace on.
\<close>

record parsed_args =
  arg_pdf_path :: string
  arg_output :: "string option"
  arg_start_page :: int
  arg_end_page :: "int option"
  arg_overwrite :: bool
  arg_backup :: bool
  arg_verbose :: bool
  arg_quiet :: bool
  arg_log_file :: "string option"
  arg_multi_processing :: bool
  arg_cpu_count :: "int option"

text \<open>\<open>Path(s)\<close> for a string that is already in normal form; \<open>Path('')\<close> is \<open>.\<close>.\<close>

definition mk_path :: "string \<Rightarrow> path" where
  "mk_path s = (if s = [] then ''.'' else s)"

definition print_file_info :: "env \<Rightarrow> world \<Rightarrow> path \<Rightarrow> exn option \<times> world" where
  "print_file_info E w p =
     (case get_file_info E w p of
        (Inl e, w1) \<Rightarrow> (Some e, w1)
      | (Inr info, w1) \<Rightarrow> (None, emit (Stdout (CliPdfInformation info)) w1))"

text \<open>The configuration that \<open>main\<close> builds from the namespace.\<close>

definition main_config :: "parsed_args \<Rightarrow> bool \<Rightarrow> ConversionConfig" where
  "main_config a verbose_flag =
     DEFAULT_CONFIG
       \<lparr> start_page := arg_start_page a, end_page := arg_end_page a,
         multi_processing := arg_multi_processing a, cpu_count := arg_cpu_count a,
         overwrite := arg_overwrite a, create_backup_flag := arg_backup a,
         verbose := verbose_flag,
         log_file := (case arg_log_file a of
                        None \<Rightarrow> None
                      | Some lf \<Rightarrow> if lf = [] then None else Some (mk_path lf)) \<rparr>"

text \<open>The output path that \<open>main\<close> chooses.\<close>

definition main_docx_path :: "parsed_args \<Rightarrow> path \<Rightarrow> exn + path" where
  "main_docx_path a p =
     (case arg_output a of
        None \<Rightarrow> with_suffix p ''.docx''
      | Some out \<Rightarrow> if out = [] then with_suffix p ''.docx'' else Inr (mk_path out))"

text \<open>The body of the \<open>try\<close> block of \<open>main\<close>: an exit code returned, or an exception.\<close>

definition main_try :: "env \<Rightarrow> world \<Rightarrow> parsed_args \<Rightarrow> bool \<Rightarrow> (exn + int) \<times> world" where
  "main_try E w a verbose_flag =
     (let p = mk_path (arg_pdf_path a) in
      if \<not> path_exists (files w) p then (Inr 1, emit (Stderr (CliPdfNotFound p)) w)
      else
        (case main_docx_path a p of
           Inl e \<Rightarrow> (Inl e, w)
         | Inr docx \<Rightarrow>
             (case (if verbose_flag then print_file_info E w p else (None, w)) of
                (Some e, w1) \<Rightarrow> (Inl e, w1)
              | (None, w1) \<Rightarrow>
                  (case dunder_init E w1 p (Some docx) (Some (main_config a verbose_flag)) of
                     (Inl e, w2) \<Rightarrow> (Inl e, w2)
                   | (Inr c, w2) \<Rightarrow>
                       (case convert E w2 c of
                          (Inl e, c', w3) \<Rightarrow> (Inl e, w3)
                        | (Inr result_path, c', w3) \<Rightarrow>
                            (Inr 0,
                             if verbose_flag
                             then emit (Stdout (CliConversionSuccessful result_path
                                          (st_size (files w3) result_path))) w3
                             else w3))))))"

definition main :: "env \<Rightarrow> world \<Rightarrow> parsed_args \<Rightarrow> int \<times> world" where
  "main E w a =
     (let verbose_flag = (arg_verbose a \<and> \<not> arg_quiet a) in
      case main_try E w a verbose_flag of
        (Inr code, w1) \<Rightarrow> (code, w1)
      | (Inl e, w1) \<Rightarrow>
          if e = KeyboardInterrupt then (130, emit (Stderr CliConversionCancelled) w1)
          else (1, let w2 = emit (Stderr (CliError e)) w1
                   in if verbose_flag then emit (Stderr (CliTraceback e)) w2 else w2))"

text \<open>Three values that \<open>main\<close> computes on its way: \<open>verbose\<close>, the input path, and
  the step that prints the file information when verbose.\<close>

definition main_verbose :: "parsed_args \<Rightarrow> bool" where
  "main_verbose a = (arg_verbose a \<and> \<not> arg_quiet a)"

definition main_pdf_path :: "parsed_args \<Rightarrow> path" where
  "main_pdf_path a = mk_path (arg_pdf_path a)"

definition main_print_info :: "env \<Rightarrow> world \<Rightarrow> parsed_args \<Rightarrow> exn option \<times> world" where
  "main_print_info E w a =
     (if main_verbose a then print_file_info E w (main_pdf_path a) else (None, w))"

section \<open>The claimed validation conditions\<close>

text \<open>
  The conditions under which, in the words of the claim, the input path fails PDF
  validation (missing, not a file, wrong extension, unopenable, or zero pages) and the
  output path fails output validation (wrong extension, exists without overwrite,
  unusable parent directory: not a directory, or missing and not creatable). They are
  written from the claim, to be compared with \<open>validate_pdf\<close> and
  \<open>validate_output_path\<close>.
\<close>

definition claimed_input_invalid :: "env \<Rightarrow> world \<Rightarrow> path \<Rightarrow> bool" where
  "claimed_input_invalid E w p =
     (\<not> path_exists (files w) p \<or> \<not> is_file (files w) p \<or>
      lower (path_suffix p) \<noteq> ''.pdf'' \<or>
      (case fitz_open E w p of Inl e \<Rightarrow> is_Exception e | Inr doc \<Rightarrow> page_count doc = 0))"

definition claimed_output_invalid :: "env \<Rightarrow> world \<Rightarrow> path \<Rightarrow> bool \<Rightarrow> bool" where
  "claimed_output_invalid E w docx overwrite_ok =
     (lower (path_suffix docx) \<noteq> ''.docx'' \<or>
      (path_exists (files w) docx \<and> \<not> overwrite_ok) \<or>
      (if path_exists (files w) (path_parent docx)
       then \<not> is_dir (files w) (path_parent docx)
       else (case os_mkdir E w (path_parent docx) of
               (Some e, fs') \<Rightarrow> is_Exception e
             | (None, fs') \<Rightarrow> \<not> is_dir fs' (path_parent docx))))"

section \<open>Observations on traces, and example worlds\<close>

text \<open>The events of the life cycle of a conversion session: opened, closed.\<close>

fun is_session_event :: "event \<Rightarrow> bool" where
  "is_session_event (SessionOpened h) = True"
| "is_session_event (SessionClose h) = True"
| "is_session_event _ = False"

definition session_events :: "event list \<Rightarrow> event list" where
  "session_events t = filter is_session_event t"

text \<open>The calls of the progress callback.\<close>

fun is_callback :: "event \<Rightarrow> bool" where
  "is_callback (Callback cb current n) = True"
| "is_callback _ = False"

text \<open>
  An example: collaborators that always succeed on a document of \<open>n\<close> pages, where the
  conversion writes the output file; a world with one PDF in the current directory; a
  converter for it with the default configuration and a registered callback.
\<close>

definition demo_env :: "nat \<Rightarrow> env" where
  "demo_env n =
     \<lparr> fitz_open = (\<lambda>w p. Inr \<lparr> page_count = n, is_encrypted = False \<rparr>),
       os_mkdir = (\<lambda>w p. (None, (p, Dir 0) # files w)),
       copy2_error = (\<lambda>w a b. None),
       open_log_file = (\<lambda>w p. (None, (p, File []) # files w)),
       session_open = (\<lambda>w p. None),
       session_convert = (\<lambda>w h out st en. (None, (out, File ''docx'') # files w)) \<rparr>"

definition demo_world :: world where
  "demo_world = \<lparr> files = [(''.'', Dir 0), (''doc.pdf'', File ''%PDF'')], trace = [] \<rparr>"

definition demo_converter :: PDFToDOCXConverter where
  "demo_converter =
     \<lparr> pdf_path = ''doc.pdf'', docx_path = ''doc.docx'', config = DEFAULT_CONFIG,
       converter = None, progress_callback = Some 7 \<rparr>"

text \<open>The example converter with an invalid configuration, and with \<open>end_page = 0\<close>.\<close>

definition invalid_converter :: PDFToDOCXConverter where
  "invalid_converter =
     demo_converter\<lparr>config := DEFAULT_CONFIG\<lparr>start_page := - 1, cpu_count := Some 0\<rparr>\<rparr>"

definition page_zero_converter :: PDFToDOCXConverter where
  "page_zero_converter = demo_converter\<lparr>config := DEFAULT_CONFIG\<lparr>end_page := Some 0\<rparr>\<rparr>"

text \<open>Collaborators of the example that fail: the conversion reports success and writes
  nothing; the session cannot be opened; the conversion raises. And the world of the
  example when \<open>convert\<close> has logged the file information.\<close>

definition no_output_env :: env where
  "no_output_env = (demo_env 1)\<lparr>session_convert := (\<lambda>w h out st en. (None, files w))\<rparr>"

definition failing_open_env :: env where
  "failing_open_env =
     (demo_env 1)\<lparr>session_open := (\<lambda>w p. Some (OtherException ''cannot open''))\<rparr>"

definition failing_convert_env :: env where
  "failing_convert_env =
     (demo_env 1)\<lparr>session_convert :=
        (\<lambda>w h out st en. (Some (OtherException ''layout error''), files w))\<rparr>"

definition demo_try_world :: world where
  "demo_try_world =
     \<lparr> files = files demo_world,
       trace = [FitzOpen ''doc.pdf'', Log INFO (MsgPdfFile ''doc.pdf''), Log INFO (MsgSize 4),
                Log INFO (MsgPages 1), Log INFO (MsgEncrypted False)] \<rparr>"

text \<open>Worlds for backups: an output file with two earlier backups, and one with none.\<close>

definition backup_world :: world where
  "backup_world =
     \<lparr> files = [(''out.docx'', File ''old''), (''out.docx.bak'', File ''b0''),
                (''out.docx.bak.1'', File ''b1'')],
       trace = [] \<rparr>"

definition fresh_world :: world where
  "fresh_world = \<lparr> files = [(''out.docx'', File ''old'')], trace = [] \<rparr>"

text \<open>A collaborator whose copy always fails, a world where the output file exists, and
  a converter that overwrites with a backup.\<close>

definition failing_copy_env :: env where
  "failing_copy_env =
     (demo_env 1)\<lparr>copy2_error := (\<lambda>w a b. Some (OtherException ''disk full''))\<rparr>"

definition overwrite_world :: world where
  "overwrite_world =
     \<lparr> files = [(''.'', Dir 0), (''doc.pdf'', File ''%PDF''), (''doc.docx'', File ''old'')],
       trace = [] \<rparr>"

definition backup_converter :: PDFToDOCXConverter where
  "backup_converter =
     demo_converter\<lparr>config := DEFAULT_CONFIG\<lparr>overwrite := True, create_backup_flag := True\<rparr>\<rparr>"

text \<open>The parsed arguments \<open>doc.pdf\<close> with every option at its default, and a
  collaborator whose conversion is interrupted by the user.\<close>

definition demo_args :: parsed_args where
  "demo_args =
     \<lparr> arg_pdf_path = ''doc.pdf'', arg_output = None, arg_start_page = 0, arg_end_page = None,
       arg_overwrite = False, arg_backup = False, arg_verbose = True, arg_quiet = False,
       arg_log_file = None, arg_multi_processing = False, arg_cpu_count = None \<rparr>"

definition interrupted_env :: env where
  "interrupted_env =
     (demo_env 3)\<lparr>session_convert := (\<lambda>w h out st en. (Some KeyboardInterrupt, files w))\<rparr>"

section \<open>Properties\<close>

subsection \<open>Configuration\<close>

text \<open>
  C4. For every configuration, \<open>validate\<close> returns one message for each of the three
  violations that holds (negative start page, end page below the start page, CPU count
  below one), all of them and in this order, and nothing else; so the list is empty
  exactly when no violation holds.
\<close>

theorem validate_reports_all_violations:
  "validate c =
     (if start_page c < 0 then [''start_page must be non-negative''] else []) @
     (if \<exists>e. end_page c = Some e \<and> e < start_page c
      then [''end_page must be >= start_page''] else []) @
     (if \<exists>n. cpu_count c = Some n \<and> n < 1 then [''cpu_count must be >= 1''] else [])
   \<and> (validate c = [] \<longleftrightarrow>
        \<not> start_page c < 0 \<and> \<not> (\<exists>e. end_page c = Some e \<and> e < start_page c)
        \<and> \<not> (\<exists>n. cpu_count c = Some n \<and> n < 1))"
  by (auto simp: validate_def split: option.splits)

subsection \<open>Traces of the steps of a conversion\<close>

lemma session_events_simps [simp]:
  "session_events [] = []"
  "session_events (t @ u) = session_events t @ session_events u"
  "session_events (e # t) = (if is_session_event e then e # session_events t else session_events t)"
  by (simp_all add: session_events_def)

lemma get_file_info_trace:
  "get_file_info E w p = (r, w') \<Longrightarrow>
     files w' = files w \<and> (\<exists>t. trace w' = trace w @ t \<and> session_events t = [])"
  by (auto simp: get_file_info_def Let_def emit_def split: sum.splits if_splits)

lemma log_file_info_trace:
  "log_file_info E w s = (r, w') \<Longrightarrow>
     files w' = files w \<and> (\<exists>t. trace w' = trace w @ t \<and> session_events t = [])"
  unfolding log_file_info_def
  by (auto simp: Let_def emit_def split: sum.splits if_splits prod.splits dest!: get_file_info_trace)

lemma copy2_trace:
  "copy2 E w a b = (r, w') \<Longrightarrow> \<exists>t. trace w' = trace w @ t \<and> session_events t = []"
  by (auto simp: copy2_def Let_def emit_def split: option.splits node.splits)

lemma create_backup_trace:
  "create_backup E w p = (r, w') \<Longrightarrow> \<exists>t. trace w' = trace w @ t \<and> session_events t = []"
  unfolding create_backup_def
  by (auto simp: emit_def split: sum.splits if_splits prod.splits option.splits dest!: copy2_trace)

lemma create_backup_if_needed_trace:
  "create_backup_if_needed E w s = (r, w') \<Longrightarrow>
     \<exists>t. trace w' = trace w @ t \<and> session_events t = []"
  unfolding create_backup_if_needed_def
  by (auto simp: emit_def split: sum.splits if_splits prod.splits option.splits
      dest!: create_backup_trace)

lemma convert_try_session:
  assumes "converter s = None" and "convert_try E w s = (r, s', w')"
  shows "converter s' = None \<and>
     (\<exists>t. trace w' = trace w @ t \<and>
        (session_events t = [] \<or>
         session_events t = [SessionOpened (Session (pdf_path s)), SessionClose (Session (pdf_path s))]))"
  using assms
  unfolding convert_try_def convert_finally_def convert_except_def convert_try_body_def
  by (auto simp: Let_def emit_def split: option.splits prod.splits if_splits sum.splits)

subsection \<open>Release of the conversion session\<close>

lemma convert_session_trace:
  assumes "converter s = None" and "convert E w s = (r, s', w')"
  shows "converter s' = None \<and>
     (\<exists>t. trace w' = trace w @ t \<and>
        (session_events t = [] \<or>
         session_events t =
           [SessionOpened (Session (pdf_path s)), SessionClose (Session (pdf_path s))]))"
proof (cases "validate (config s) = []")
  case False
  with assms show ?thesis
    by (auto simp: convert_def Let_def)
next
  case True
  obtain r1 w1 where l: "log_file_info E w s = (r1, w1)"
    by (cases "log_file_info E w s")
  from log_file_info_trace[OF l] obtain t1
    where t1: "trace w1 = trace w @ t1" "session_events t1 = []" by auto
  show ?thesis
  proof (cases r1)
    case (Some e)
    with assms True l t1 show ?thesis
      by (auto simp: convert_def Let_def)
  next
    case None
    obtain r2 w2 where b: "create_backup_if_needed E w1 s = (r2, w2)"
      by (cases "create_backup_if_needed E w1 s")
    from create_backup_if_needed_trace[OF b] obtain t2
      where t2: "trace w2 = trace w1 @ t2" "session_events t2 = []" by auto
    show ?thesis
    proof (cases r2)
      case (Some e)
      with assms True l None b t1 t2 show ?thesis
        by (auto simp: convert_def Let_def)
    next
      case n2: None
      let ?w3 = "emit (Log INFO MsgMayTakeAMoment)
                   (emit (Log INFO (MsgStartingConversion (docx_path s))) w2)"
      from assms(2) True l None b n2 have c: "convert_try E ?w3 s = (r, s', w')"
        by (simp add: convert_def Let_def)
      from convert_try_session[OF assms(1) c] obtain t3
        where cs: "converter s' = None" and t3: "trace w' = trace ?w3 @ t3"
          "session_events t3 = [] \<or> session_events t3 =
             [SessionOpened (Session (pdf_path s)), SessionClose (Session (pdf_path s))]"
        by auto
      have "trace w' = trace w @ (t1 @ t2 @ [Log INFO (MsgStartingConversion (docx_path s)),
                Log INFO MsgMayTakeAMoment] @ t3)"
        using t1(1) t2(1) t3(1) by (simp add: emit_def)
      moreover have "session_events (t1 @ t2 @ [Log INFO (MsgStartingConversion (docx_path s)),
                Log INFO MsgMayTakeAMoment] @ t3) = session_events t3"
        using t1(2) t2(2) by simp
      ultimately have "\<exists>t. trace w' = trace w @ t \<and>
        (session_events t = [] \<or>
         session_events t =
           [SessionOpened (Session (pdf_path s)), SessionClose (Session (pdf_path s))])"
        using t3(2) by metis
      with cs show ?thesis
        by simp
    qed
  qed
qed

lemma convert_try_trace_extends:
  "convert_try E w s = (r, s', w') \<Longrightarrow> \<exists>t. trace w' = trace w @ t"
  unfolding convert_try_def convert_finally_def convert_except_def convert_try_body_def
  by (auto simp: Let_def emit_def split: option.splits prod.splits if_splits sum.splits)

lemma convert_trace_extends:
  assumes "convert E w s = (r, s', w')"
  shows "\<exists>t. trace w' = trace w @ t"
proof (cases "validate (config s) = []")
  case False
  with assms show ?thesis
    by (auto simp: convert_def Let_def)
next
  case True
  obtain r1 w1 where l: "log_file_info E w s = (r1, w1)"
    by (cases "log_file_info E w s")
  from log_file_info_trace[OF l] obtain t1 where t1: "trace w1 = trace w @ t1" by auto
  obtain r2 w2 where b: "create_backup_if_needed E w1 s = (r2, w2)"
    by (cases "create_backup_if_needed E w1 s")
  from create_backup_if_needed_trace[OF b] obtain t2 where t2: "trace w2 = trace w1 @ t2" by auto
  let ?w3 = "emit (Log INFO MsgMayTakeAMoment)
               (emit (Log INFO (MsgStartingConversion (docx_path s))) w2)"
  obtain r3 s3 w3 where c: "convert_try E ?w3 s = (r3, s3, w3)"
    by (cases "convert_try E ?w3 s")
  from convert_try_trace_extends[OF c] obtain t3 where t3: "trace w3 = trace ?w3 @ t3" by auto
  from assms True l b c have "w' = w1 \<or> w' = w2 \<or> w' = w3"
    by (auto simp: convert_def Let_def split: option.splits)
  then show ?thesis
    using t1 t2 t3 by (auto simp: emit_def)
qed

lemma convert_with_progress_first_event:
  assumes "progress_callback s = Some cb" "get_file_info E w (pdf_path s) = (Inr info, w1)"
  shows "\<exists>t. trace (snd (snd (convert_with_progress E w s))) =
     trace w1 @ Callback cb 0 (pages_to_convert (config s) (int (info_pages info))) # t"
proof -
  let ?n = "pages_to_convert (config s) (int (info_pages info))"
  let ?w2 = "emit (Callback cb 0 ?n) w1"
  obtain r s' w3 where c: "convert E ?w2 s = (r, s', w3)"
    by (cases "convert E ?w2 s")
  from convert_trace_extends[OF c] obtain t where t: "trace w3 = trace ?w2 @ t" by auto
  have "snd (snd (convert_with_progress E w s)) = w3 \<or>
        (\<exists>e. snd (snd (convert_with_progress E w s)) = emit e w3)"
    using assms c
    by (auto simp: convert_with_progress_def call_progress_def Let_def
        split: sum.splits option.splits)
  then show ?thesis
    using t by (auto simp: emit_def)
qed

text \<open>The definitions that a run of the example unfolds.\<close>

lemmas run_defs =
  convert_with_progress_def call_progress_def pages_to_convert_def
  convert_def convert_try_def convert_finally_def convert_except_def
  convert_try_body_def log_file_info_def get_file_info_def create_backup_if_needed_def
  demo_env_def demo_world_def demo_converter_def DEFAULT_CONFIG_def validate_def
  emit_def path_exists_def st_size_def path_name_def Let_def

text \<open>
  C1. In every call of \<open>convert\<close> on a converter that holds no session (as after
  \<open>__init__\<close> and after every earlier call), the session events of the call are either
  none (the session was never opened: the configuration was invalid, an earlier step was
  interrupted, or opening failed) or exactly one opening followed by exactly one close;
  afterwards the converter holds no session, so a later \<open>__exit__\<close> closes nothing.
\<close>

theorem convert_releases_session_once:
  assumes "converter s = None" and "convert E w s = (r, s', w')"
  shows "converter s' = None \<and>
     (\<exists>t. trace w' = trace w @ t \<and>
        (session_events t = [] \<or>
         session_events t =
           [SessionOpened (Session (pdf_path s)), SessionClose (Session (pdf_path s))])) \<and>
     dunder_exit w' s' = (False, s', w')"
proof -
  from convert_session_trace[OF assms]
  have a: "converter s' = None"
    and b: "\<exists>t. trace w' = trace w @ t \<and>
        (session_events t = [] \<or>
         session_events t =
           [SessionOpened (Session (pdf_path s)), SessionClose (Session (pdf_path s))])"
    by simp_all
  from a have "dunder_exit w' s' = (False, s', w')"
    by (simp add: dunder_exit_def)
  with a b show ?thesis by simp
qed

theorem convert_releases_session_once_witness:
  "converter demo_converter = None \<and>
   fst (convert (demo_env 1) demo_world demo_converter) = Inr ''doc.docx'' \<and>
   converter (fst (snd (convert (demo_env 1) demo_world demo_converter))) = None \<and>
   session_events (trace (snd (snd (convert (demo_env 1) demo_world demo_converter)))) =
     [SessionOpened (Session ''doc.pdf''), SessionClose (Session ''doc.pdf'')]"
  using convert_releases_session_once[of demo_converter "demo_env 1" demo_world
      "fst (convert (demo_env 1) demo_world demo_converter)"
      "fst (snd (convert (demo_env 1) demo_world demo_converter))"
      "snd (snd (convert (demo_env 1) demo_world demo_converter))"]
  by (simp add: convert_def convert_try_def convert_finally_def convert_except_def
      convert_try_body_def log_file_info_def get_file_info_def create_backup_if_needed_def
      demo_env_def demo_world_def demo_converter_def DEFAULT_CONFIG_def validate_def
      emit_def path_exists_def st_size_def path_name_def Let_def)

subsection \<open>Configuration errors come first\<close>

text \<open>
  C6. \<open>convert\<close> validates the configuration first. When \<open>validate\<close> reports an error,
  \<open>convert\<close> raises \<open>ValueError\<close> with the joined messages and returns the converter
  and the world as they were: no event (no inspection of the PDF, no backup copy, no
  session opened, no conversion call, no log record) and no change of the files.
\<close>

theorem convert_invalid_config_fails_before_io:
  "validate (config s) \<noteq> [] \<Longrightarrow>
     convert E w s =
       (Inl (ValueError (''Invalid configuration: '' @ join '', '' (validate (config s)))), s, w)"
  by (simp add: convert_def Let_def)

theorem convert_invalid_config_fails_before_io_witness:
  "validate (config invalid_converter) \<noteq> [] \<and>
   convert (demo_env 1) demo_world invalid_converter =
     (Inl (ValueError
        ''Invalid configuration: start_page must be non-negative, cpu_count must be >= 1''),
      invalid_converter, demo_world)"
  using convert_invalid_config_fails_before_io[of invalid_converter "demo_env 1" demo_world]
  by (simp add: invalid_converter_def demo_converter_def DEFAULT_CONFIG_def validate_def)

subsection \<open>Progress reporting\<close>

text \<open>
  C9. With \<open>end_page = 0\<close> the total of \<open>convert_with_progress\<close> is
  \<open>total_pages - start_page + 1\<close>, the same as with \<open>end_page\<close> absent, and this is the
  total that the first call of a registered callback reports.
\<close>

theorem end_page_zero_counts_as_absent:
  assumes "end_page (config s) = Some 0"
    and "progress_callback s = Some cb"
    and "get_file_info E w (pdf_path s) = (Inr info, w1)"
  shows "pages_to_convert (config s) (int (info_pages info)) =
           int (info_pages info) - start_page (config s) + 1 \<and>
         pages_to_convert (config s) (int (info_pages info)) =
           pages_to_convert ((config s)\<lparr>end_page := None\<rparr>) (int (info_pages info)) \<and>
         (\<exists>t. trace (snd (snd (convert_with_progress E w s))) =
            trace w1 @
            Callback cb 0 (int (info_pages info) - start_page (config s) + 1) # t)"
proof -
  have a: "pages_to_convert (config s) (int (info_pages info)) =
           int (info_pages info) - start_page (config s) + 1"
    using assms(1) by (simp add: pages_to_convert_def)
  have b: "pages_to_convert ((config s)\<lparr>end_page := None\<rparr>) (int (info_pages info)) =
           int (info_pages info) - start_page (config s) + 1"
    by (simp add: pages_to_convert_def)
  from convert_with_progress_first_event[OF assms(2,3)] a b show ?thesis
    by simp
qed

theorem end_page_zero_counts_as_absent_witness:
  "end_page (config page_zero_converter) = Some 0 \<and>
   progress_callback page_zero_converter = Some 7 \<and>
   fst (get_file_info (demo_env 5) demo_world (pdf_path page_zero_converter)) =
     Inr \<lparr> info_path = ''doc.pdf'', info_name = ''doc.pdf'', info_size = 4, info_pages = 5,
           info_encrypted = False \<rparr> \<and>
   pages_to_convert (config page_zero_converter) 5 = 6 \<and>
   filter is_callback
     (trace (snd (snd (convert_with_progress (demo_env 5) demo_world page_zero_converter)))) =
     [Callback 7 0 6, Callback 7 6 6]"
  using end_page_zero_counts_as_absent[of page_zero_converter 7 "demo_env 5" demo_world
      "\<lparr> info_path = ''doc.pdf'', info_name = ''doc.pdf'', info_size = 4, info_pages = 5,
         info_encrypted = False \<rparr>"
      "emit (FitzOpen ''doc.pdf'') demo_world"]
  by (simp add: page_zero_converter_def run_defs)

text \<open>
  The calls of a registered callback, whatever the total \<open>n\<close>: \<open>(0, n)\<close> before
  \<open>convert\<close>; then \<open>(n, n)\<close> when \<open>convert\<close> returns, or \<open>(0, n)\<close> when it raises an
  \<open>Exception\<close>, which is raised again unchanged.
\<close>

lemma convert_try_keeps_callback:
  "convert_try E w s = (r, s', w') \<Longrightarrow> progress_callback s' = progress_callback s"
  unfolding convert_try_def convert_finally_def convert_except_def convert_try_body_def
  by (auto simp: Let_def split: option.splits prod.splits if_splits sum.splits)

lemma convert_keeps_callback:
  "convert E w s = (r, s', w') \<Longrightarrow> progress_callback s' = progress_callback s"
  unfolding convert_def Let_def
  by (auto split: option.splits prod.splits if_splits dest: convert_try_keeps_callback)

lemma convert_with_progress_calls:
  assumes "progress_callback s = Some cb"
    and "get_file_info E w (pdf_path s) = (Inr info, w1)"
    and "n = pages_to_convert (config s) (int (info_pages info))"
    and "convert E (emit (Callback cb 0 n) w1) s = (r, s', w3)"
  shows "convert_with_progress E w s =
     (r, s',
      case r of
        Inr result \<Rightarrow> emit (Callback cb n n) w3
      | Inl e \<Rightarrow> if is_Exception e then emit (Callback cb 0 n) w3 else w3)"
  using assms convert_keeps_callback[OF assms(4)]
  by (simp add: convert_with_progress_def call_progress_def Let_def split: sum.splits)

text \<open>
  C2, evaluated on a document of 5 pages with the default configuration (start page 0,
  no end page) and callback 7 registered: the conversion succeeds and the callback is
  called with \<open>(0, 6)\<close> and then \<open>(6, 6)\<close>. The total is 6, not 5.
\<close>

theorem convert_with_progress_five_pages_reports_six:
  "pages_to_convert (config demo_converter) 5 = 6 \<and>
   fst (convert_with_progress (demo_env 5) demo_world demo_converter) = Inr ''doc.docx'' \<and>
   filter is_callback
     (trace (snd (snd (convert_with_progress (demo_env 5) demo_world demo_converter)))) =
     [Callback 7 0 6, Callback 7 6 6]"
  by (simp add: run_defs)

subsection \<open>Failures of the conversion\<close>

lemma convert_enters_try:
  assumes "validate (config s) = []"
    and "log_file_info E w s = (None, w1)"
    and "create_backup_if_needed E w1 s = (None, w2)"
  shows "convert E w s = convert_try E (try_entry s w2) s"
  using assms by (simp add: convert_def try_entry_def)

lemma convert_try_open_fails:
  assumes "session_open E w (pdf_path s) = Some e" "is_Exception e"
  shows "fst (convert_try E w s) = Inl (ConversionFailed e)"
  using assms
  by (simp add: convert_try_def convert_finally_def convert_except_def convert_try_body_def
      ConversionFailed_def split: option.splits)

lemma convert_try_convert_fails:
  assumes "session_open E w (pdf_path s) = None"
    and "session_convert E (emit (SessionOpened (Session (pdf_path s))) w)
           (Session (pdf_path s)) (docx_path s) (start_page (config s)) (end_page (config s))
         = (Some e, fs')"
    and "is_Exception e"
  shows "fst (convert_try E w s) = Inl (ConversionFailed e)"
  using assms
  by (simp add: convert_try_def convert_finally_def convert_except_def convert_try_body_def
      ConversionFailed_def Let_def)

lemma convert_try_no_output:
  assumes "session_open E w (pdf_path s) = None"
    and "session_convert E (emit (SessionOpened (Session (pdf_path s))) w)
           (Session (pdf_path s)) (docx_path s) (start_page (config s)) (end_page (config s))
         = (None, fs')"
    and "\<not> path_exists fs' (docx_path s)"
  shows "fst (convert_try E w s) = Inl (ConversionFailed OutputNotProduced)"
  using assms
  by (simp add: convert_try_def convert_finally_def convert_except_def convert_try_body_def
      ConversionFailed_def OutputNotProduced_def Let_def emit_def)

text \<open>
  C3, as the claim states it, fails: when the conversion reports success and no output
  file exists, \<open>convert\<close> does not raise the error for the missing output itself; the
  error is raised inside the \<open>try\<close> block, so the \<open>except\<close> clause wraps it like any
  other failure.
\<close>

theorem output_not_produced_is_wrapped:
  "fst (convert no_output_env demo_world demo_converter) = Inl (ConversionFailed OutputNotProduced) \<and>
   fst (convert no_output_env demo_world demo_converter) \<noteq> Inl OutputNotProduced"
  by (simp add: no_output_env_def ConversionFailed_def OutputNotProduced_def run_defs)

text \<open>
  C3, amended. When \<open>convert\<close> reaches its \<open>try\<close> block: an \<open>Exception\<close> raised by
  opening the session, or by the conversion call, is raised again as a \<open>RuntimeError\<close>
  with the message \<open>Failed to convert PDF: ...\<close> and the original as its cause; and when
  the conversion call reports success but the output file does not exist, \<open>convert\<close> fails
  (no silent success) with the same wrapper, whose cause is the \<open>RuntimeError\<close> that names
  the missing output.
\<close>

theorem conversion_failures_are_wrapped:
  assumes "validate (config s) = []"
    and "log_file_info E w s = (None, w1)"
    and "create_backup_if_needed E w1 s = (None, w2)"
  shows
    "(\<forall>e. session_open E (try_entry s w2) (pdf_path s) = Some e \<and> is_Exception e \<longrightarrow>
        fst (convert E w s) = Inl (ConversionFailed e)) \<and>
     (\<forall>e fs'. session_open E (try_entry s w2) (pdf_path s) = None \<and>
        session_convert E (emit (SessionOpened (Session (pdf_path s))) (try_entry s w2))
          (Session (pdf_path s)) (docx_path s) (start_page (config s)) (end_page (config s))
          = (Some e, fs') \<and> is_Exception e \<longrightarrow>
        fst (convert E w s) = Inl (ConversionFailed e)) \<and>
     (\<forall>fs'. session_open E (try_entry s w2) (pdf_path s) = None \<and>
        session_convert E (emit (SessionOpened (Session (pdf_path s))) (try_entry s w2))
          (Session (pdf_path s)) (docx_path s) (start_page (config s)) (end_page (config s))
          = (None, fs') \<and> \<not> path_exists fs' (docx_path s) \<longrightarrow>
        fst (convert E w s) = Inl (ConversionFailed OutputNotProduced))"
  unfolding convert_enters_try[OF assms]
  using convert_try_open_fails convert_try_convert_fails convert_try_no_output
  by blast

theorem conversion_failures_are_wrapped_witness:
  "validate (config demo_converter) = [] \<and>
   log_file_info failing_open_env demo_world demo_converter = (None, demo_try_world) \<and>
   create_backup_if_needed failing_open_env demo_try_world demo_converter = (None, demo_try_world) \<and>
   session_open failing_open_env (try_entry demo_converter demo_try_world) ''doc.pdf''
     = Some (OtherException ''cannot open'') \<and>
   fst (convert failing_open_env demo_world demo_converter)
     = Inl (ConversionFailed (OtherException ''cannot open'')) \<and>
   fst (convert failing_convert_env demo_world demo_converter)
     = Inl (ConversionFailed (OtherException ''layout error'')) \<and>
   fst (convert no_output_env demo_world demo_converter)
     = Inl (ConversionFailed OutputNotProduced)"
  using conversion_failures_are_wrapped[of demo_converter failing_open_env demo_world
      demo_try_world demo_try_world]
    conversion_failures_are_wrapped[of demo_converter failing_convert_env demo_world
      demo_try_world demo_try_world]
    conversion_failures_are_wrapped[of demo_converter no_output_env demo_world
      demo_try_world demo_try_world]
  by (simp add: failing_open_env_def failing_convert_env_def no_output_env_def
      demo_try_world_def try_entry_def ConversionFailed_def OutputNotProduced_def run_defs)

subsection \<open>Backup names\<close>

lemma backup_candidate_numbered:
  "path_name p \<noteq> [] \<Longrightarrow> backup_candidate p n = Inr (numbered_backup p n)"
  by (simp add: backup_candidate_eq numbered_backup_def)

lemma find_unique_backup_spec:
  assumes "path_name p \<noteq> []"
  shows "\<exists>b. find_unique_backup fs p c bp = Inr b \<and> \<not> path_exists fs b \<and>
          (b = bp \<or>
           (path_exists fs bp \<and>
            (\<exists>n. c \<le> n \<and> b = numbered_backup p n \<and>
               (\<forall>m. c \<le> m \<and> m < n \<longrightarrow> path_exists fs (numbered_backup p m)))))"
  using assms
proof (induction fs p c bp rule: find_unique_backup.induct)
  case (1 fs p c bp)
  show ?case
  proof (cases "path_exists fs bp")
    case False
    then show ?thesis
      by (subst find_unique_backup.simps) simp
  next
    case True
    define cand where "cand = numbered_backup p c"
    have cand: "backup_candidate p c = Inr cand"
      using "1.prems" by (simp add: backup_candidate_numbered cand_def)
    from "1.IH"[OF True cand "1.prems"] obtain b where
      bb: "find_unique_backup fs p (c + 1) cand = Inr b \<and> \<not> path_exists fs b \<and>
        (b = cand \<or>
         (path_exists fs cand \<and>
          (\<exists>n. c + 1 \<le> n \<and> b = numbered_backup p n \<and>
             (\<forall>m. c + 1 \<le> m \<and> m < n \<longrightarrow> path_exists fs (numbered_backup p m)))))" ..
    then have b: "find_unique_backup fs p (c + 1) cand = Inr b" "\<not> path_exists fs b"
      by simp_all
    have r: "find_unique_backup fs p c bp = Inr b"
      using True cand b(1) by (subst find_unique_backup.simps) simp
    have "\<exists>n. c \<le> n \<and> b = numbered_backup p n \<and>
               (\<forall>m. c \<le> m \<and> m < n \<longrightarrow> path_exists fs (numbered_backup p m))"
    proof (cases "b = cand")
      case True
      have "\<forall>m. c \<le> m \<and> m < c \<longrightarrow> path_exists fs (numbered_backup p m)"
        by auto
      with True have "c \<le> c \<and> b = numbered_backup p c \<and>
               (\<forall>m. c \<le> m \<and> m < c \<longrightarrow> path_exists fs (numbered_backup p m))"
        by (simp add: cand_def)
      then show ?thesis by (rule exI)
    next
      case False
      with bb obtain n where c: "path_exists fs cand" and n: "c + 1 \<le> n"
        "b = numbered_backup p n"
        "\<forall>m. c + 1 \<le> m \<and> m < n \<longrightarrow> path_exists fs (numbered_backup p m)"
        by auto
      have "\<forall>m. c \<le> m \<and> m < n \<longrightarrow> path_exists fs (numbered_backup p m)"
      proof (intro allI impI)
        fix m assume m: "c \<le> m \<and> m < n"
        show "path_exists fs (numbered_backup p m)"
        proof (cases "m = c")
          case True
          with c show ?thesis by (simp add: cand_def)
        next
          case False
          with m have "c + 1 \<le> m \<and> m < n" by simp
          with n(3) show ?thesis by simp
        qed
      qed
      with n(1,2) have "c \<le> n \<and> b = numbered_backup p n \<and>
               (\<forall>m. c \<le> m \<and> m < n \<longrightarrow> path_exists fs (numbered_backup p m))"
        by simp
      then show ?thesis by (rule exI)
    qed
    with r b(2) True show ?thesis by simp
  qed
qed

lemma path_suffix_name: "path_suffix p \<noteq> [] \<Longrightarrow> path_name p \<noteq> []"
  by (auto simp: path_suffix_def Let_def rfind_def split: if_splits)

lemma docx_suffix_name: "lower (path_suffix p) = ''.docx'' \<Longrightarrow> path_name p \<noteq> []"
  by (rule path_suffix_name) (auto simp: lower_def)

lemma first_backup_name:
  "path_name p \<noteq> [] \<Longrightarrow> with_suffix p (path_suffix p @ ''.bak'') = Inr (p @ ''.bak'')"
  by (rule with_suffix_append) simp_all

lemma create_backup_probe:
  assumes "path_exists (files w) p" "path_name p \<noteq> []"
  shows "\<exists>b. create_backup E w p =
            (case copy2 E w p b of
               (None, w1) \<Rightarrow> (Inr (Some b), w1)
             | (Some e, w1) \<Rightarrow>
                 if is_Exception e then (Inr None, emit (Log ERROR (MsgBackupCopyFailed e)) w1)
                 else (Inl e, w1)) \<and>
          \<not> path_exists (files w) b \<and>
          (b = p @ ''.bak'' \<or>
           (path_exists (files w) (p @ ''.bak'') \<and>
            (\<exists>n. 1 \<le> n \<and> b = numbered_backup p n \<and>
               (\<forall>m. 1 \<le> m \<and> m < n \<longrightarrow> path_exists (files w) (numbered_backup p m)))))"
proof -
  from find_unique_backup_spec[OF assms(2), of "files w" 1 "p @ ''.bak''"] obtain b where
    bb: "find_unique_backup (files w) p 1 (p @ ''.bak'') = Inr b \<and> \<not> path_exists (files w) b \<and>
          (b = p @ ''.bak'' \<or>
           (path_exists (files w) (p @ ''.bak'') \<and>
            (\<exists>n. 1 \<le> n \<and> b = numbered_backup p n \<and>
               (\<forall>m. 1 \<le> m \<and> m < n \<longrightarrow> path_exists (files w) (numbered_backup p m)))))" ..
  then have f: "find_unique_backup (files w) p 1 (p @ ''.bak'') = Inr b" by simp
  have "create_backup E w p =
            (case copy2 E w p b of
               (None, w1) \<Rightarrow> (Inr (Some b), w1)
             | (Some e, w1) \<Rightarrow>
                 if is_Exception e then (Inr None, emit (Log ERROR (MsgBackupCopyFailed e)) w1)
                 else (Inl e, w1))"
    unfolding create_backup_def first_backup_name[OF assms(2)]
    using assms(1) f by simp
  with bb show ?thesis by blast
qed

lemma copy2_success:
  assumes "map_of (files w) p = Some (File c)" "copy2_error E w p b = None"
  shows "copy2 E w p b = (None, (emit (Copy2 p b) w)\<lparr>files := (b, File c) # files w\<rparr>)"
  using assms by (simp add: copy2_def emit_def)

lemma copy2_failure:
  assumes "fst (copy2 E w p b) = Some e"
  shows "copy2 E w p b = (Some e, emit (Copy2 p b) w)"
  using assms by (auto simp: copy2_def Let_def split: option.splits node.splits)

lemma str_nat_1: "str_nat 1 = ''1''"
  by (simp add: str_nat.simps digit_char_def)

lemma numbered_backup_1: "numbered_backup p 1 = p @ ''.bak.1''"
  unfolding numbered_backup_def str_nat_1 by simp

lemma numbered_backup_Suc_0: "numbered_backup p (Suc 0) = p @ ''.bak.1''"
  using numbered_backup_1[of p] by simp

text \<open>
  C5. For an existing regular file whose copy does not fail, \<open>create_backup\<close> copies it
  to a path that did not exist before: \<open><path>.bak\<close>, or, when that exists,
  \<open><path>.bak.<n>\<close> for the smallest \<open>n \<ge> 1\<close> whose name is free. Every path that
  existed keeps its node, so no earlier backup is overwritten. Starting with neither
  \<open><path>.bak\<close> nor \<open><path>.bak.1\<close>, two calls in a row create \<open><path>.bak\<close> and then
  \<open><path>.bak.1\<close>, and both hold the contents of the file.
\<close>

theorem create_backup_naming:
  assumes "map_of (files w) p = Some (File c)"
    and "path_name p \<noteq> []"
    and "\<forall>w' dst. copy2_error E w' p dst = None"
  shows
    "(\<exists>b. create_backup E w p =
            (Inr (Some b), (emit (Copy2 p b) w)\<lparr>files := (b, File c) # files w\<rparr>) \<and>
          \<not> path_exists (files w) b \<and>
          (b = p @ ''.bak'' \<or>
           (path_exists (files w) (p @ ''.bak'') \<and>
            (\<exists>n. 1 \<le> n \<and> b = numbered_backup p n \<and>
               (\<forall>m. 1 \<le> m \<and> m < n \<longrightarrow> path_exists (files w) (numbered_backup p m))))) \<and>
          (\<forall>q. path_exists (files w) q \<longrightarrow>
             map_of ((b, File c) # files w) q = map_of (files w) q)) \<and>
     (\<not> path_exists (files w) (p @ ''.bak'') \<and> \<not> path_exists (files w) (p @ ''.bak.1'') \<longrightarrow>
        (\<exists>w1 w2. create_backup E w p = (Inr (Some (p @ ''.bak'')), w1) \<and>
           create_backup E w1 p = (Inr (Some (p @ ''.bak.1'')), w2) \<and>
           map_of (files w2) p = Some (File c) \<and>
           map_of (files w2) (p @ ''.bak'') = Some (File c) \<and>
           map_of (files w2) (p @ ''.bak.1'') = Some (File c)))"
proof -
  have general: "\<exists>b. create_backup E v p =
            (Inr (Some b), (emit (Copy2 p b) v)\<lparr>files := (b, File c) # files v\<rparr>) \<and>
          \<not> path_exists (files v) b \<and>
          (b = p @ ''.bak'' \<or>
           (path_exists (files v) (p @ ''.bak'') \<and>
            (\<exists>n. 1 \<le> n \<and> b = numbered_backup p n \<and>
               (\<forall>m. 1 \<le> m \<and> m < n \<longrightarrow> path_exists (files v) (numbered_backup p m)))))"
    if v: "map_of (files v) p = Some (File c)" for v
  proof -
    from v have ex: "path_exists (files v) p"
      by (simp add: path_exists_def)
    from create_backup_probe[OF ex assms(2), of E] obtain b where
      bb: "create_backup E v p =
            (case copy2 E v p b of
               (None, w1) \<Rightarrow> (Inr (Some b), w1)
             | (Some e, w1) \<Rightarrow>
                 if is_Exception e then (Inr None, emit (Log ERROR (MsgBackupCopyFailed e)) w1)
                 else (Inl e, w1)) \<and>
          \<not> path_exists (files v) b \<and>
          (b = p @ ''.bak'' \<or>
           (path_exists (files v) (p @ ''.bak'') \<and>
            (\<exists>n. 1 \<le> n \<and> b = numbered_backup p n \<and>
               (\<forall>m. 1 \<le> m \<and> m < n \<longrightarrow> path_exists (files v) (numbered_backup p m)))))" ..
    from assms(3) have "copy2_error E v p b = None" by simp
    from copy2_success[OF v this] bb
    have "create_backup E v p =
            (Inr (Some b), (emit (Copy2 p b) v)\<lparr>files := (b, File c) # files v\<rparr>) \<and>
          \<not> path_exists (files v) b \<and>
          (b = p @ ''.bak'' \<or>
           (path_exists (files v) (p @ ''.bak'') \<and>
            (\<exists>n. 1 \<le> n \<and> b = numbered_backup p n \<and>
               (\<forall>m. 1 \<le> m \<and> m < n \<longrightarrow> path_exists (files v) (numbered_backup p m)))))"
      by simp
    then show ?thesis by (rule exI)
  qed
  have first: "\<exists>b. create_backup E w p =
            (Inr (Some b), (emit (Copy2 p b) w)\<lparr>files := (b, File c) # files w\<rparr>) \<and>
          \<not> path_exists (files w) b \<and>
          (b = p @ ''.bak'' \<or>
           (path_exists (files w) (p @ ''.bak'') \<and>
            (\<exists>n. 1 \<le> n \<and> b = numbered_backup p n \<and>
               (\<forall>m. 1 \<le> m \<and> m < n \<longrightarrow> path_exists (files w) (numbered_backup p m))))) \<and>
          (\<forall>q. path_exists (files w) q \<longrightarrow>
             map_of ((b, File c) # files w) q = map_of (files w) q)"
  proof -
    from general[OF assms(1)] obtain b where
      b: "create_backup E w p =
            (Inr (Some b), (emit (Copy2 p b) w)\<lparr>files := (b, File c) # files w\<rparr>) \<and>
          \<not> path_exists (files w) b \<and>
          (b = p @ ''.bak'' \<or>
           (path_exists (files w) (p @ ''.bak'') \<and>
            (\<exists>n. 1 \<le> n \<and> b = numbered_backup p n \<and>
               (\<forall>m. 1 \<le> m \<and> m < n \<longrightarrow> path_exists (files w) (numbered_backup p m)))))" ..
    then have "\<not> path_exists (files w) b" by simp
    then have "\<forall>q. path_exists (files w) q \<longrightarrow>
             map_of ((b, File c) # files w) q = map_of (files w) q"
      by auto
    with b show ?thesis by blast
  qed
  have twice: "\<exists>w1 w2. create_backup E w p = (Inr (Some (p @ ''.bak'')), w1) \<and>
           create_backup E w1 p = (Inr (Some (p @ ''.bak.1'')), w2) \<and>
           map_of (files w2) p = Some (File c) \<and>
           map_of (files w2) (p @ ''.bak'') = Some (File c) \<and>
           map_of (files w2) (p @ ''.bak.1'') = Some (File c)"
    if fresh: "\<not> path_exists (files w) (p @ ''.bak'')" "\<not> path_exists (files w) (p @ ''.bak.1'')"
  proof -
    define b1 where "b1 = p @ ''.bak''"
    define b2 where "b2 = p @ ''.bak.1''"
    have ne: "b1 \<noteq> p" "b2 \<noteq> p" "b1 \<noteq> b2"
      by (simp_all add: b1_def b2_def)
    define w1 where "w1 = (emit (Copy2 p b1) w)\<lparr>files := (b1, File c) # files w\<rparr>"
    from general[OF assms(1)] fresh(1)
    have c1: "create_backup E w p = (Inr (Some b1), w1)"
      unfolding b1_def[symmetric] w1_def by auto
    have p1: "map_of (files w1) p = Some (File c)"
      using assms(1) ne by (simp add: w1_def)
    have e1: "path_exists (files w1) b1"
      by (simp add: w1_def path_exists_def)
    have n2: "\<not> path_exists (files w1) b2"
      using fresh(2) ne by (simp add: w1_def path_exists_def b2_def[symmetric])
    from general[OF p1] obtain b where
      b: "create_backup E w1 p =
            (Inr (Some b), (emit (Copy2 p b) w1)\<lparr>files := (b, File c) # files w1\<rparr>)"
        "\<not> path_exists (files w1) b"
        "b = b1 \<or>
           (path_exists (files w1) b1 \<and>
            (\<exists>n. 1 \<le> n \<and> b = numbered_backup p n \<and>
               (\<forall>m. 1 \<le> m \<and> m < n \<longrightarrow> path_exists (files w1) (numbered_backup p m))))"
      unfolding b1_def[symmetric] by auto
    from b(2,3) e1 obtain n where n: "1 \<le> n" "b = numbered_backup p n"
        "\<forall>m. 1 \<le> m \<and> m < n \<longrightarrow> path_exists (files w1) (numbered_backup p m)"
      by auto
    have "n = 1"
    proof (rule ccontr)
      assume "n \<noteq> 1"
      with n(1) have "1 \<le> (1::nat) \<and> 1 < n" by simp
      with n(3) have "path_exists (files w1) (numbered_backup p 1)" by blast
      with n2 show False by (simp add: numbered_backup_Suc_0 b2_def)
    qed
    with n(2) have bb: "b = b2"
      by (simp add: numbered_backup_Suc_0 b2_def)
    define w2 where "w2 = (emit (Copy2 p b2) w1)\<lparr>files := (b2, File c) # files w1\<rparr>"
    have c2: "create_backup E w1 p = (Inr (Some b2), w2)"
      using b(1) bb by (simp add: w2_def)
    have f: "map_of (files w2) p = Some (File c)" "map_of (files w2) b1 = Some (File c)"
      "map_of (files w2) b2 = Some (File c)"
      using p1 ne by (simp_all add: w2_def w1_def)
    from c1 c2 f have "create_backup E w p = (Inr (Some b1), w1) \<and>
           create_backup E w1 p = (Inr (Some b2), w2) \<and>
           map_of (files w2) p = Some (File c) \<and>
           map_of (files w2) b1 = Some (File c) \<and>
           map_of (files w2) b2 = Some (File c)"
      by simp
    then show ?thesis
      unfolding b1_def b2_def by (intro exI)
  qed
  from first twice show ?thesis by blast
qed

text \<open>The definitions that a run of \<open>create_backup\<close> unfolds.\<close>

lemmas backup_run_defs =
  create_backup_def copy2_def find_unique_backup.simps backup_candidate_def with_suffix_def
  path_suffix_def path_name_def rfind_def str_nat.simps digit_char_def path_exists_def
  emit_def demo_env_def Let_def

theorem create_backup_naming_witness:
  "map_of (files backup_world) ''out.docx'' = Some (File ''old'') \<and>
   path_name ''out.docx'' \<noteq> [] \<and>
   (\<forall>w' dst. copy2_error (demo_env 1) w' ''out.docx'' dst = None) \<and>
   create_backup (demo_env 1) backup_world ''out.docx'' =
     (Inr (Some ''out.docx.bak.2''),
      \<lparr> files = (''out.docx.bak.2'', File ''old'') # files backup_world,
        trace = [Copy2 ''out.docx'' ''out.docx.bak.2''] \<rparr>) \<and>
   fst (create_backup (demo_env 1) fresh_world ''out.docx'') = Inr (Some ''out.docx.bak'') \<and>
   fst (create_backup (demo_env 1)
          (snd (create_backup (demo_env 1) fresh_world ''out.docx'')) ''out.docx'') =
     Inr (Some ''out.docx.bak.1'')"
  using create_backup_naming[of backup_world "''out.docx''" "''old''" "demo_env 1"]
    create_backup_naming[of fresh_world "''out.docx''" "''old''" "demo_env 1"]
  by (simp add: backup_world_def fresh_world_def backup_run_defs)

subsection \<open>Backups are best effort\<close>

lemma convert_try_first_event:
  "\<exists>ev t. trace (snd (snd (convert_try E w s))) = trace w @ ev # t \<and>
     (ev = SessionOpened (Session (pdf_path s)) \<or> ev = SessionOpenFailed (pdf_path s))"
  unfolding convert_try_def convert_finally_def convert_except_def convert_try_body_def
  by (auto simp: Let_def emit_def split: option.splits prod.splits if_splits sum.splits)

text \<open>
  C7. When the output file exists, a backup is requested and the copy fails with an
  \<open>Exception\<close>, \<open>create_backup\<close> returns \<open>None\<close> after logging the error, the files are
  as before, and \<open>convert\<close> goes on: its result is that of its \<open>try\<close> block, entered
  after the warning, and the next event is the opening of the conversion session.
\<close>

theorem backup_failure_is_not_fatal:
  assumes "validate (config s) = []"
    and "log_file_info E w s = (None, w1)"
    and "path_exists (files w1) (docx_path s)"
    and "create_backup_flag (config s)"
    and "lower (path_suffix (docx_path s)) = ''.docx''"
    and "\<forall>dst. \<exists>e. fst (copy2 E w1 (docx_path s) dst) = Some e \<and> is_Exception e"
  shows "\<exists>b e.
     create_backup E w1 (docx_path s) =
       (Inr None, emit (Log ERROR (MsgBackupCopyFailed e)) (emit (Copy2 (docx_path s) b) w1)) \<and>
     files (after_failed_backup s b e w1) = files w1 \<and>
     convert E w s = convert_try E (try_entry s (after_failed_backup s b e w1)) s \<and>
     (\<exists>ev t. trace (snd (snd (convert E w s))) =
        trace (try_entry s (after_failed_backup s b e w1)) @ ev # t \<and>
        (ev = SessionOpened (Session (pdf_path s)) \<or> ev = SessionOpenFailed (pdf_path s)))"
proof -
  have nm: "path_name (docx_path s) \<noteq> []"
    using assms(5) by (rule docx_suffix_name)
  from create_backup_probe[OF assms(3) nm, of E] obtain b where
    cb: "create_backup E w1 (docx_path s) =
            (case copy2 E w1 (docx_path s) b of
               (None, v) \<Rightarrow> (Inr (Some b), v)
             | (Some e, v) \<Rightarrow>
                 if is_Exception e then (Inr None, emit (Log ERROR (MsgBackupCopyFailed e)) v)
                 else (Inl e, v))"
    by auto
  from assms(6) obtain e where e: "fst (copy2 E w1 (docx_path s) b) = Some e" "is_Exception e"
    by auto
  from copy2_failure[OF e(1)] cb e(2)
  have c: "create_backup E w1 (docx_path s) =
       (Inr None, emit (Log ERROR (MsgBackupCopyFailed e)) (emit (Copy2 (docx_path s) b) w1))"
    by simp
  then have n: "create_backup_if_needed E w1 s = (None, after_failed_backup s b e w1)"
    using assms(3,4) by (simp add: create_backup_if_needed_def after_failed_backup_def)
  have f: "files (after_failed_backup s b e w1) = files w1"
    by (simp add: after_failed_backup_def emit_def)
  have cv: "convert E w s = convert_try E (try_entry s (after_failed_backup s b e w1)) s"
    using assms(1,2) n by (rule convert_enters_try)
  have "\<exists>ev t. trace (snd (snd (convert E w s))) =
        trace (try_entry s (after_failed_backup s b e w1)) @ ev # t \<and>
        (ev = SessionOpened (Session (pdf_path s)) \<or> ev = SessionOpenFailed (pdf_path s))"
    unfolding cv by (rule convert_try_first_event)
  with c f cv show ?thesis by blast
qed

theorem backup_failure_is_not_fatal_witness:
  "validate (config backup_converter) = [] \<and>
   fst (log_file_info failing_copy_env overwrite_world backup_converter) = None \<and>
   path_exists (files overwrite_world) (docx_path backup_converter) \<and>
   create_backup_flag (config backup_converter) \<and>
   lower (path_suffix (docx_path backup_converter)) = ''.docx'' \<and>
   fst (convert failing_copy_env overwrite_world backup_converter) = Inr ''doc.docx'' \<and>
   filter (\<lambda>ev. ev = Log WARNING MsgFailedToCreateBackup \<or>
                 ev = SessionOpened (Session ''doc.pdf''))
     (trace (snd (snd (convert failing_copy_env overwrite_world backup_converter)))) =
     [Log WARNING MsgFailedToCreateBackup, SessionOpened (Session ''doc.pdf'')]"
proof -
  let ?w1 = "snd (log_file_info failing_copy_env overwrite_world backup_converter)"
  have h1: "validate (config backup_converter) = []"
    by (simp add: backup_converter_def run_defs)
  have h2': "fst (log_file_info failing_copy_env overwrite_world backup_converter) = None"
    by (simp add: failing_copy_env_def overwrite_world_def backup_converter_def run_defs)
  then have h2: "log_file_info failing_copy_env overwrite_world backup_converter = (None, ?w1)"
    by (simp add: prod_eq_iff)
  have fw: "files ?w1 = files overwrite_world"
    using log_file_info_trace[OF h2] by simp
  have h3': "path_exists (files overwrite_world) (docx_path backup_converter)"
    by (simp add: overwrite_world_def backup_converter_def demo_converter_def path_exists_def)
  then have h3: "path_exists (files ?w1) (docx_path backup_converter)"
    by (simp only: fw)
  have h4: "create_backup_flag (config backup_converter)"
    by (simp add: backup_converter_def)
  have h5: "lower (path_suffix (docx_path backup_converter)) = ''.docx''"
    by (simp add: backup_converter_def demo_converter_def lower_def lower_char_def
        path_suffix_def path_name_def rfind_def)
  have h6: "\<forall>dst. \<exists>e. fst (copy2 failing_copy_env ?w1 (docx_path backup_converter) dst) = Some e
      \<and> is_Exception e"
    unfolding copy2_def Let_def fw
    by (simp add: failing_copy_env_def overwrite_world_def backup_converter_def
        demo_converter_def demo_env_def)
  have r1: "fst (convert failing_copy_env overwrite_world backup_converter) = Inr ''doc.docx''"
    by (simp add: failing_copy_env_def overwrite_world_def backup_converter_def
        run_defs create_backup_def copy2_def find_unique_backup.simps backup_candidate_def
        with_suffix_def path_suffix_def rfind_def str_nat.simps digit_char_def)
  have r2: "filter (\<lambda>ev. ev = Log WARNING MsgFailedToCreateBackup \<or>
                 ev = SessionOpened (Session ''doc.pdf''))
     (trace (snd (snd (convert failing_copy_env overwrite_world backup_converter)))) =
     [Log WARNING MsgFailedToCreateBackup, SessionOpened (Session ''doc.pdf'')]"
    by (simp add: failing_copy_env_def overwrite_world_def backup_converter_def
        run_defs create_backup_def copy2_def find_unique_backup.simps backup_candidate_def
        with_suffix_def path_suffix_def rfind_def str_nat.simps digit_char_def)
  show ?thesis
    using backup_failure_is_not_fatal[OF h1 h2 h3 h4 h5 h6]
    by (intro conjI h1 h2' h3' h4 h5 r1 r2)
qed

subsection \<open>Validation at construction\<close>

lemma validate_pdf_fails:
  "claimed_input_invalid E w p \<Longrightarrow> \<exists>m. fst (validate_pdf E w p) = Inr (False, Some m)"
  by (auto simp: claimed_input_invalid_def validate_pdf_def Let_def split: sum.splits)

lemma validate_pdf_ok:
  "fst (validate_pdf E w p) = Inr (True, err) \<Longrightarrow>
     \<not> claimed_input_invalid E w p \<and> validate_pdf E w p = (Inr (True, None), emit (FitzOpen p) w) \<and>
     (\<exists>doc. fitz_open E w p = Inr doc \<and> 0 < page_count doc)"
  by (auto simp: claimed_input_invalid_def validate_pdf_def Let_def split: sum.splits if_splits)

lemma validate_output_path_fails:
  "claimed_output_invalid E w docx ov \<Longrightarrow>
     \<exists>m. fst (validate_output_path E w docx ov) = Inr (False, Some m)"
  by (auto simp: claimed_output_invalid_def validate_output_path_def Let_def emit_def
      split: prod.splits option.splits if_splits)

lemma validate_output_path_ok:
  "fst (validate_output_path E w docx ov) = Inr (True, err) \<Longrightarrow>
     \<not> claimed_output_invalid E w docx ov"
  by (auto simp: claimed_output_invalid_def validate_output_path_def Let_def emit_def
      split: prod.splits option.splits if_splits)

text \<open>
  C10. \<open>__init__\<close> validates eagerly. Whenever the input path fails PDF validation,
  \<open>__init__\<close> raises \<open>ValueError\<close> (\<open>Invalid PDF file: ...\<close>); whenever the input is
  valid and the provided or derived output path fails output validation, it raises
  \<open>ValueError\<close> (\<open>Invalid output path: ...\<close>); and whenever \<open>__init__\<close> returns a
  converter, neither validation failed, the PDF opened with at least one page, the
  suffixes are \<open>.pdf\<close> and \<open>.docx\<close>, and the converter holds no session. So no converter
  exists on which \<open>convert\<close> could run with a path that was invalid at construction.
\<close>

theorem init_validates_eagerly:
  "(claimed_input_invalid E w p \<longrightarrow>
      (\<exists>m. fst (dunder_init E w p d c) = Inl (ValueError (''Invalid PDF file: '' @ m)))) \<and>
   (\<forall>docx w1. validate_pdf E w p = (Inr (True, None), w1) \<and>
      (case d of Some x \<Rightarrow> Inr x | None \<Rightarrow> with_suffix p ''.docx'') = Inr docx \<and>
      claimed_output_invalid E w1 docx
        (overwrite (case c of None \<Rightarrow> DEFAULT_CONFIG | Some x \<Rightarrow> x)) \<longrightarrow>
      (\<exists>m. fst (dunder_init E w p d c) = Inl (ValueError (''Invalid output path: '' @ m)))) \<and>
   (\<forall>s w'. dunder_init E w p d c = (Inr s, w') \<longrightarrow>
      \<not> claimed_input_invalid E w p \<and>
      (\<exists>doc. fitz_open E w p = Inr doc \<and> 0 < page_count doc) \<and>
      \<not> claimed_output_invalid E (emit (FitzOpen p) w) (docx_path s) (overwrite (config s)) \<and>
      lower (path_suffix p) = ''.pdf'' \<and> lower (path_suffix (docx_path s)) = ''.docx'' \<and>
      pdf_path s = p \<and> converter s = None)"
proof -
  let ?cfg = "case c of None \<Rightarrow> DEFAULT_CONFIG | Some x \<Rightarrow> x"
  have A: "claimed_input_invalid E w p \<longrightarrow>
      (\<exists>m. fst (dunder_init E w p d c) = Inl (ValueError (''Invalid PDF file: '' @ m)))"
  proof
    assume "claimed_input_invalid E w p"
    from validate_pdf_fails[OF this] obtain m where
      "fst (validate_pdf E w p) = Inr (False, Some m)" ..
    then have "fst (dunder_init E w p d c) = Inl (ValueError (''Invalid PDF file: '' @ m))"
      by (cases "validate_pdf E w p") (simp add: dunder_init_def Let_def)
    then show "\<exists>m. fst (dunder_init E w p d c) = Inl (ValueError (''Invalid PDF file: '' @ m))" ..
  qed
  have B: "\<forall>docx w1. validate_pdf E w p = (Inr (True, None), w1) \<and>
      (case d of Some x \<Rightarrow> Inr x | None \<Rightarrow> with_suffix p ''.docx'') = Inr docx \<and>
      claimed_output_invalid E w1 docx (overwrite ?cfg) \<longrightarrow>
      (\<exists>m. fst (dunder_init E w p d c) = Inl (ValueError (''Invalid output path: '' @ m)))"
  proof (intro allI impI)
    fix docx w1
    assume a: "validate_pdf E w p = (Inr (True, None), w1) \<and>
      (case d of Some x \<Rightarrow> Inr x | None \<Rightarrow> with_suffix p ''.docx'') = Inr docx \<and>
      claimed_output_invalid E w1 docx (overwrite ?cfg)"
    then have "claimed_output_invalid E w1 docx (overwrite ?cfg)" by simp
    from validate_output_path_fails[OF this] obtain m where
      m: "fst (validate_output_path E w1 docx (overwrite ?cfg)) = Inr (False, Some m)" ..
    have "fst (dunder_init E w p d c) = Inl (ValueError (''Invalid output path: '' @ m))"
      using a m
      by (cases "validate_output_path E w1 docx (overwrite ?cfg)")
        (simp add: dunder_init_def Let_def)
    then show "\<exists>m. fst (dunder_init E w p d c) = Inl (ValueError (''Invalid output path: '' @ m))" ..
  qed
  have C: "\<forall>s w'. dunder_init E w p d c = (Inr s, w') \<longrightarrow>
      \<not> claimed_input_invalid E w p \<and>
      (\<exists>doc. fitz_open E w p = Inr doc \<and> 0 < page_count doc) \<and>
      \<not> claimed_output_invalid E (emit (FitzOpen p) w) (docx_path s) (overwrite (config s)) \<and>
      lower (path_suffix p) = ''.pdf'' \<and> lower (path_suffix (docx_path s)) = ''.docx'' \<and>
      pdf_path s = p \<and> converter s = None"
  proof (intro allI impI)
    fix s w'
    assume i: "dunder_init E w p d c = (Inr s, w')"
    obtain r1 w1 where v1: "validate_pdf E w p = (r1, w1)"
      by (cases "validate_pdf E w p")
    with i obtain err where r1: "r1 = Inr (True, err)"
      by (auto simp: dunder_init_def Let_def split: sum.splits if_splits prod.splits)
    from validate_pdf_ok[of E w p err] v1 r1
    have ok1: "\<not> claimed_input_invalid E w p"
      "validate_pdf E w p = (Inr (True, None), emit (FitzOpen p) w)"
      "\<exists>doc. fitz_open E w p = Inr doc \<and> 0 < page_count doc"
      by simp_all
    from i ok1(2) obtain docx where
      dx: "(case d of Some x \<Rightarrow> Inr x | None \<Rightarrow> with_suffix p ''.docx'') = Inr docx"
      by (auto simp: dunder_init_def Let_def split: sum.splits)
    obtain r2 w2 where
      v2: "validate_output_path E (emit (FitzOpen p) w) docx (overwrite ?cfg) = (r2, w2)"
      by (cases "validate_output_path E (emit (FitzOpen p) w) docx (overwrite ?cfg)")
    from i ok1(2) dx v2 obtain err2 where r2: "r2 = Inr (True, err2)"
      by (auto simp: dunder_init_def Let_def split: sum.splits if_splits prod.splits)
    from i ok1(2) dx v2 r2 have s: "docx_path s = docx" "config s = ?cfg" "pdf_path s = p"
      "converter s = None"
      by (auto simp: dunder_init_def Let_def split: prod.splits option.splits)
    from validate_output_path_ok[of E "emit (FitzOpen p) w" docx "overwrite ?cfg" err2] v2 r2
    have ok2: "\<not> claimed_output_invalid E (emit (FitzOpen p) w) docx (overwrite ?cfg)"
      by simp
    have sfx: "lower (path_suffix p) = ''.pdf''" "lower (path_suffix docx) = ''.docx''"
      using ok1(1) ok2 by (simp_all add: claimed_input_invalid_def claimed_output_invalid_def)
    show "\<not> claimed_input_invalid E w p \<and>
      (\<exists>doc. fitz_open E w p = Inr doc \<and> 0 < page_count doc) \<and>
      \<not> claimed_output_invalid E (emit (FitzOpen p) w) (docx_path s) (overwrite (config s)) \<and>
      lower (path_suffix p) = ''.pdf'' \<and> lower (path_suffix (docx_path s)) = ''.docx'' \<and>
      pdf_path s = p \<and> converter s = None"
      using ok1(1,3) ok2 sfx s by simp
  qed
  show ?thesis
    by (rule conjI[OF A conjI[OF B C]])
qed

theorem init_validates_eagerly_witness:
  "claimed_input_invalid (demo_env 1) demo_world ''missing.pdf'' \<and>
   fst (dunder_init (demo_env 1) demo_world ''missing.pdf'' None None) =
     Inl (ValueError ''Invalid PDF file: File not found: missing.pdf'') \<and>
   validate_pdf (demo_env 1) overwrite_world ''doc.pdf'' =
     (Inr (True, None), emit (FitzOpen ''doc.pdf'') overwrite_world) \<and>
   claimed_output_invalid (demo_env 1) (emit (FitzOpen ''doc.pdf'') overwrite_world)
     ''doc.docx'' False \<and>
   fst (dunder_init (demo_env 1) overwrite_world ''doc.pdf'' None None) =
     Inl (ValueError
       ''Invalid output path: Output file already exists: doc.docx. Use overwrite=True to replace.'') \<and>
   dunder_init (demo_env 1) demo_world ''doc.pdf'' None None =
     (Inr (demo_converter\<lparr>progress_callback := None\<rparr>), emit (FitzOpen ''doc.pdf'') demo_world)"
proof -
  note defs = dunder_init_def validate_pdf_def validate_output_path_def setup_logging_def
    with_suffix_def path_suffix_def path_name_def path_parent_def rfind_def lower_def
    lower_char_def path_exists_def is_file_def is_dir_def emit_def Let_def
    demo_env_def demo_world_def overwrite_world_def demo_converter_def DEFAULT_CONFIG_def
  have a: "claimed_input_invalid (demo_env 1) demo_world ''missing.pdf''"
    by (simp add: claimed_input_invalid_def demo_world_def path_exists_def)
  have b: "fst (dunder_init (demo_env 1) demo_world ''missing.pdf'' None None) =
     Inl (ValueError ''Invalid PDF file: File not found: missing.pdf'')"
    by (simp add: defs)
  have c: "validate_pdf (demo_env 1) overwrite_world ''doc.pdf'' =
     (Inr (True, None), emit (FitzOpen ''doc.pdf'') overwrite_world)"
    by (simp add: defs)
  have d: "claimed_output_invalid (demo_env 1) (emit (FitzOpen ''doc.pdf'') overwrite_world)
     ''doc.docx'' False"
    by (simp add: claimed_output_invalid_def defs)
  have e: "fst (dunder_init (demo_env 1) overwrite_world ''doc.pdf'' None None) =
     Inl (ValueError
       ''Invalid output path: Output file already exists: doc.docx. Use overwrite=True to replace.'')"
    by (simp add: defs)
  have f: "dunder_init (demo_env 1) demo_world ''doc.pdf'' None None =
     (Inr (demo_converter\<lparr>progress_callback := None\<rparr>), emit (FitzOpen ''doc.pdf'') demo_world)"
    by (simp add: defs)
  show ?thesis
    using init_validates_eagerly[of "demo_env 1" demo_world "''missing.pdf''" None None]
      init_validates_eagerly[of "demo_env 1" overwrite_world "''doc.pdf''" None None]
      init_validates_eagerly[of "demo_env 1" demo_world "''doc.pdf''" None None]
    by (intro conjI a b c d e f)
qed

subsection \<open>Exit codes of the command line\<close>

lemma with_suffix_not_interrupt: "with_suffix p s \<noteq> Inl KeyboardInterrupt"
  by (simp add: with_suffix_def Let_def)

lemma main_docx_path_not_interrupt: "main_docx_path a p \<noteq> Inl KeyboardInterrupt"
  by (simp add: main_docx_path_def with_suffix_not_interrupt split: option.splits)

lemma main_try_cases:
  "main_try E w a (main_verbose a) =
     (if \<not> path_exists (files w) (main_pdf_path a)
      then (Inr 1, emit (Stderr (CliPdfNotFound (main_pdf_path a))) w)
      else case main_docx_path a (main_pdf_path a) of
        Inl e \<Rightarrow> (Inl e, w)
      | Inr docx \<Rightarrow>
          (case main_print_info E w a of
             (Some e, w1) \<Rightarrow> (Inl e, w1)
           | (None, w1) \<Rightarrow>
               (case dunder_init E w1 (main_pdf_path a) (Some docx)
                       (Some (main_config a (main_verbose a))) of
                  (Inl e, w2) \<Rightarrow> (Inl e, w2)
                | (Inr c, w2) \<Rightarrow>
                    (case convert E w2 c of
                       (Inl e, c', w3) \<Rightarrow> (Inl e, w3)
                     | (Inr result_path, c', w3) \<Rightarrow>
                         (Inr 0,
                          if main_verbose a
                          then emit (Stdout (CliConversionSuccessful result_path
                                       (st_size (files w3) result_path))) w3
                          else w3)))))"
  unfolding main_try_def main_pdf_path_def main_print_info_def Let_def
  by (rule refl)

lemma main_code:
  "fst (main E w a) =
     (case fst (main_try E w a (main_verbose a)) of
        Inr code \<Rightarrow> code
      | Inl e \<Rightarrow> if e = KeyboardInterrupt then 130 else 1)"
  by (simp add: main_def main_verbose_def Let_def split: prod.splits sum.splits)

text \<open>
  C8. \<open>main\<close> returns 0, 1 or 130. It returns 0 exactly when the input exists, the
  converter was constructed and \<open>convert\<close> returned a path; 130 exactly when a step
  (printing the file information, the construction, the conversion) was interrupted by
  the user; and 1 in every other case. When the input file is missing it returns 1,
  and the world is as before but for the error line: no file is created and no copy is
  attempted.
\<close>

theorem main_exit_codes:
  "fst (main E w a) \<in> {0, 1, 130} \<and>
   (fst (main E w a) = 0 \<longleftrightarrow>
      path_exists (files w) (main_pdf_path a) \<and>
      (\<exists>docx w1 c w2 r c' w3.
         main_docx_path a (main_pdf_path a) = Inr docx \<and>
         main_print_info E w a = (None, w1) \<and>
         dunder_init E w1 (main_pdf_path a) (Some docx) (Some (main_config a (main_verbose a)))
           = (Inr c, w2) \<and>
         convert E w2 c = (Inr r, c', w3))) \<and>
   (fst (main E w a) = 130 \<longleftrightarrow>
      path_exists (files w) (main_pdf_path a) \<and>
      (\<exists>docx. main_docx_path a (main_pdf_path a) = Inr docx \<and>
         (fst (main_print_info E w a) = Some KeyboardInterrupt \<or>
          (\<exists>w1. main_print_info E w a = (None, w1) \<and>
             (fst (dunder_init E w1 (main_pdf_path a) (Some docx)
                     (Some (main_config a (main_verbose a)))) = Inl KeyboardInterrupt \<or>
              (\<exists>c w2. dunder_init E w1 (main_pdf_path a) (Some docx)
                          (Some (main_config a (main_verbose a))) = (Inr c, w2) \<and>
                 fst (convert E w2 c) = Inl KeyboardInterrupt)))))) \<and>
   (\<not> path_exists (files w) (main_pdf_path a) \<longrightarrow>
      main E w a = (1, emit (Stderr (CliPdfNotFound (main_pdf_path a))) w))"
proof -
  have A: "fst (main E w a) \<in> {0, 1, 130}"
    unfolding main_code main_try_cases
    by (simp split: sum.splits prod.splits option.splits)
  have B: "fst (main E w a) = 0 \<longleftrightarrow>
      path_exists (files w) (main_pdf_path a) \<and>
      (\<exists>docx w1 c w2 r c' w3.
         main_docx_path a (main_pdf_path a) = Inr docx \<and>
         main_print_info E w a = (None, w1) \<and>
         dunder_init E w1 (main_pdf_path a) (Some docx) (Some (main_config a (main_verbose a)))
           = (Inr c, w2) \<and>
         convert E w2 c = (Inr r, c', w3))"
    unfolding main_code main_try_cases
    by (auto split: sum.splits prod.splits option.splits)
  have C: "fst (main E w a) = 130 \<longleftrightarrow>
      path_exists (files w) (main_pdf_path a) \<and>
      (\<exists>docx. main_docx_path a (main_pdf_path a) = Inr docx \<and>
         (fst (main_print_info E w a) = Some KeyboardInterrupt \<or>
          (\<exists>w1. main_print_info E w a = (None, w1) \<and>
             (fst (dunder_init E w1 (main_pdf_path a) (Some docx)
                     (Some (main_config a (main_verbose a)))) = Inl KeyboardInterrupt \<or>
              (\<exists>c w2. dunder_init E w1 (main_pdf_path a) (Some docx)
                          (Some (main_config a (main_verbose a))) = (Inr c, w2) \<and>
                 fst (convert E w2 c) = Inl KeyboardInterrupt)))))"
    unfolding main_code main_try_cases
    using main_docx_path_not_interrupt[of a "main_pdf_path a"]
    by (auto split: sum.splits prod.splits option.splits)
  have D: "\<not> path_exists (files w) (main_pdf_path a) \<longrightarrow>
      main E w a = (1, emit (Stderr (CliPdfNotFound (main_pdf_path a))) w)"
    by (simp add: main_def main_try_def main_pdf_path_def Let_def)
  show ?thesis
    by (rule conjI[OF A conjI[OF B conjI[OF C D]]])
qed

text \<open>The definitions that a run of \<open>main\<close> unfolds, besides those of a conversion.\<close>

lemmas cli_run_defs =
  main_def main_try_def main_docx_path_def main_config_def mk_path_def print_file_info_def
  dunder_init_def validate_pdf_def validate_output_path_def setup_logging_def
  with_suffix_def path_suffix_def path_parent_def rfind_def lower_def lower_char_def
  is_file_def is_dir_def

theorem main_exit_codes_witness:
  "fst (main (demo_env 3) demo_world demo_args) = 0 \<and>
   map_of (files (snd (main (demo_env 3) demo_world demo_args))) ''doc.docx'' = Some (File ''docx'') \<and>
   fst (main failing_convert_env demo_world demo_args) = 1 \<and>
   fst (main interrupted_env demo_world demo_args) = 130 \<and>
   \<not> path_exists (files demo_world) (main_pdf_path (demo_args\<lparr>arg_pdf_path := ''missing.pdf''\<rparr>)) \<and>
   main (demo_env 3) demo_world (demo_args\<lparr>arg_pdf_path := ''missing.pdf''\<rparr>) =
     (1, \<lparr> files = files demo_world, trace = [Stderr (CliPdfNotFound ''missing.pdf'')] \<rparr>)"
proof -
  have a: "fst (main (demo_env 3) demo_world demo_args) = 0"
    by (simp add: demo_args_def cli_run_defs run_defs)
  have b: "map_of (files (snd (main (demo_env 3) demo_world demo_args))) ''doc.docx'' =
      Some (File ''docx'')"
    by (simp add: demo_args_def cli_run_defs run_defs)
  have c: "fst (main failing_convert_env demo_world demo_args) = 1"
    by (simp add: demo_args_def failing_convert_env_def cli_run_defs run_defs)
  have d: "fst (main interrupted_env demo_world demo_args) = 130"
    by (simp add: demo_args_def interrupted_env_def cli_run_defs run_defs)
  have e: "\<not> path_exists (files demo_world)
      (main_pdf_path (demo_args\<lparr>arg_pdf_path := ''missing.pdf''\<rparr>))"
    by (simp add: main_pdf_path_def mk_path_def demo_world_def path_exists_def)
  have f: "main (demo_env 3) demo_world (demo_args\<lparr>arg_pdf_path := ''missing.pdf''\<rparr>) =
     (1, \<lparr> files = files demo_world, trace = [Stderr (CliPdfNotFound ''missing.pdf'')] \<rparr>)"
    by (simp add: demo_args_def cli_run_defs run_defs)
  show ?thesis
    using main_exit_codes[of "demo_env 3" demo_world demo_args]
      main_exit_codes[of failing_convert_env demo_world demo_args]
      main_exit_codes[of interrupted_env demo_world demo_args]
      main_exit_codes[of "demo_env 3" demo_world "demo_args\<lparr>arg_pdf_path := ''missing.pdf''\<rparr>"]
    by (intro conjI a b c d e f)
qed

end
